theory Spec2Isabelle
  imports Complex_Main
begin

section \<open>Rubric scoring engine (scoring/scorer.py and its leaf modules)\<close>

text \<open>
  Conventions of the embedding.
  \<^item> Python numbers (JSON ints and floats, float arithmetic) are exact rationals; the
    representation error of binary floating point is not modelled.
  \<^item> \<open>round(x, n)\<close> acts on the float the program holds, which can differ from the exact
    value in the last place and so fall on the other side of a tie. It is therefore not
    defined here: it is the field \<open>py_round\<close> of the record \<open>providers\<close>, and no
    statement assumes anything about it.
  \<^item> A Python string is a \<open>string\<close>; \<open>str.lower\<close> and \<open>str.strip\<close> are modelled on
    ASCII letters and ASCII white space.
  \<^item> A rubric dictionary is a record with one optional field per key the code reads;
    \<open>d.get(k, default)\<close> is \<open>dget\<close>, and \<open>d[k]\<close> on an absent key is \<open>KeyError\<close>.
  \<^item> An exception is a value \<open>Inl e\<close> of the result type \<open>py_error + 'a\<close>.
  \<^item> The external collaborators (tokenisers, grammar checker, sentiment analyser,
    sentence encoder) are the fields of the record \<open>providers\<close>.
  \<^item> A feedback message is a constructor naming the message text, with the numbers
    the text formats as arguments.
\<close>

subsection \<open>Errors and dictionary access\<close>

datatype py_error = KeyError string | ZeroDivisionError | ProviderError string

type_synonym 'a result = "py_error + 'a"

text \<open>\<open>d.get(key, default)\<close>: the first argument is the optional field of \<open>key\<close>.\<close>

fun dget :: "'a option \<Rightarrow> 'a \<Rightarrow> 'a" where
  "dget None d = d"
| "dget (Some v) d = v"

subsection \<open>Strings\<close>

definition lower_char :: "char \<Rightarrow> char" where
  "lower_char c =
     (case map_of (zip ''ABCDEFGHIJKLMNOPQRSTUVWXYZ'' ''abcdefghijklmnopqrstuvwxyz'') c of
        None \<Rightarrow> c
      | Some d \<Rightarrow> d)"

definition lower :: "string \<Rightarrow> string" where
  "lower s = map lower_char s"

definition is_space :: "char \<Rightarrow> bool" where
  "is_space c = (c \<in> set [CHR '' '', CHR 0x09, CHR 0x0A, CHR 0x0B, CHR 0x0C, CHR 0x0D,
                            CHR 0x1C, CHR 0x1D, CHR 0x1E, CHR 0x1F])"

definition strip :: "string \<Rightarrow> string" where
  "strip s = rev (dropWhile is_space (rev (dropWhile is_space s)))"

fun startswith :: "string \<Rightarrow> string \<Rightarrow> bool" where
  "startswith s [] = True"
| "startswith [] (p # ps) = False"
| "startswith (c # cs) (p # ps) = (c = p \<and> startswith cs ps)"

text \<open>\<open>s.find(sub)\<close>, searching from offset \<open>i\<close>: the lowest index, or \<open>-1\<close>.\<close>

fun find_from :: "nat \<Rightarrow> string \<Rightarrow> string \<Rightarrow> int" where
  "find_from i [] sub = (if sub = [] then int i else - 1)"
| "find_from i (c # cs) sub =
     (if startswith (c # cs) sub then int i else find_from (Suc i) cs sub)"

definition str_find :: "string \<Rightarrow> string \<Rightarrow> int" where
  "str_find s sub = find_from 0 s sub"

text \<open>\<open>sub in s\<close> for strings.\<close>

definition str_contains :: "string \<Rightarrow> string \<Rightarrow> bool" where
  "str_contains s sub = (str_find s sub \<noteq> - 1)"

text \<open>\<open>any(kw in txt for kw in kws)\<close>.\<close>

definition any_kw_in :: "string \<Rightarrow> string list \<Rightarrow> bool" where
  "any_kw_in txt kws = list_ex (\<lambda>kw. str_contains txt kw) kws"

subsection \<open>The rubric\<close>

record tier =
  tier_keywords :: "string list option"
  tier_score :: "rat option"

record salutation_rules =
  excellent :: "tier option"
  good :: "tier option"
  normal :: "tier option"
  no_salutation :: "tier option"

record salutation_cfg =
  sal_weight :: "rat option"
  sal_rules :: "salutation_rules option"

record keyword_group =
  kw_keywords :: "string list option"
  score_each :: "rat option"

record keyword_cfg =
  kw_weight :: "rat option"
  must_have :: "keyword_group option"
  good_to_have :: "keyword_group option"

record correct_order_cfg =
  order :: "string list option"
  co_score :: "rat option"

record flow_rules =
  correct_order :: "correct_order_cfg option"

record flow_cfg =
  fl_rules :: "flow_rules option"

record content_cfg =
  cs_weight :: "rat option"
  salutation :: "salutation_cfg option"
  keyword_presence :: "keyword_cfg option"
  flow :: "flow_cfg option"

record rate_rules =
  too_fast :: "tier option"
  fast :: "tier option"
  ideal :: "tier option"
  slow :: "tier option"
  too_slow :: "tier option"

record speech_rate_cfg =
  sr_weight :: "rat option"
  sr_rules :: "rate_rules option"

record weight_cfg =
  weight :: "rat option"

record language_cfg =
  lang_weight :: "rat option"
  grammar :: "weight_cfg option"
  vocabulary :: "weight_cfg option"

record filler_scoring =
  b0_3 :: "rat option"
  b4_6 :: "rat option"
  b7_9 :: "rat option"
  b10_12 :: "rat option"
  b13_plus :: "rat option"

record filler_cfg =
  scoring :: "filler_scoring option"

record clarity_cfg =
  cl_weight :: "rat option"
  filler_words :: "filler_cfg option"

record rubric =
  content_and_structure :: "content_cfg option"
  speech_rate :: "speech_rate_cfg option"
  language_and_grammar :: "language_cfg option"
  clarity :: "clarity_cfg option"
  engagement :: "weight_cfg option"

text \<open>The empty dictionary \<open>{}\<close> at each record type.\<close>

definition no_tier :: tier where
  "no_tier = \<lparr>tier_keywords = None, tier_score = None\<rparr>"

definition no_salutation_rules :: salutation_rules where
  "no_salutation_rules = \<lparr>excellent = None, good = None, normal = None, no_salutation = None\<rparr>"

definition no_salutation_cfg :: salutation_cfg where
  "no_salutation_cfg = \<lparr>sal_weight = None, sal_rules = None\<rparr>"

definition no_keyword_group :: keyword_group where
  "no_keyword_group = \<lparr>kw_keywords = None, score_each = None\<rparr>"

definition no_keyword_cfg :: keyword_cfg where
  "no_keyword_cfg = \<lparr>kw_weight = None, must_have = None, good_to_have = None\<rparr>"

definition no_correct_order :: correct_order_cfg where
  "no_correct_order = \<lparr>order = None, co_score = None\<rparr>"

definition no_flow_rules :: flow_rules where
  "no_flow_rules = \<lparr>correct_order = None\<rparr>"

definition no_flow_cfg :: flow_cfg where
  "no_flow_cfg = \<lparr>fl_rules = None\<rparr>"

definition no_content_cfg :: content_cfg where
  "no_content_cfg =
     \<lparr>cs_weight = None, salutation = None, keyword_presence = None, flow = None\<rparr>"

definition no_rate_rules :: rate_rules where
  "no_rate_rules = \<lparr>too_fast = None, fast = None, ideal = None, slow = None, too_slow = None\<rparr>"

definition no_speech_rate_cfg :: speech_rate_cfg where
  "no_speech_rate_cfg = \<lparr>sr_weight = None, sr_rules = None\<rparr>"

definition no_weight_cfg :: weight_cfg where
  "no_weight_cfg = \<lparr>weight = None\<rparr>"

definition no_language_cfg :: language_cfg where
  "no_language_cfg = \<lparr>lang_weight = None, grammar = None, vocabulary = None\<rparr>"

definition no_filler_scoring :: filler_scoring where
  "no_filler_scoring =
     \<lparr>b0_3 = None, b4_6 = None, b7_9 = None, b10_12 = None, b13_plus = None\<rparr>"

definition no_filler_cfg :: filler_cfg where
  "no_filler_cfg = \<lparr>scoring = None\<rparr>"

definition no_clarity_cfg :: clarity_cfg where
  "no_clarity_cfg = \<lparr>cl_weight = None, filler_words = None\<rparr>"

definition empty_rubric :: rubric where
  "empty_rubric =
     \<lparr>content_and_structure = None, speech_rate = None, language_and_grammar = None,
      clarity = None, engagement = None\<rparr>"

subsection \<open>\<open>_normalize\<close>\<close>

definition normalize_score :: "rat \<Rightarrow> rat \<Rightarrow> rat" where
  "normalize_score subscore max_score =
     (if max_score \<le> 0 then 0 else max 0 (min 1 (subscore / max_score)))"

subsection \<open>\<open>score_salutation\<close>\<close>

datatype salutation_feedback =
  ExcellentSalutation | GoodSalutation | NormalSalutation | NoClearSalutation

text \<open>\<open>rules.get(name, {}).get("keywords", [])\<close>.\<close>

definition keywords_of :: "tier option \<Rightarrow> string list" where
  "keywords_of t = dget (tier_keywords (dget t no_tier)) []"

text \<open>\<open>rules[name]["score"]\<close>: both subscripts raise \<open>KeyError\<close> on an absent key.\<close>

definition tier_score_item :: "string \<Rightarrow> tier option \<Rightarrow> rat result" where
  "tier_score_item name t =
     (case t of
        None \<Rightarrow> Inl (KeyError name)
      | Some d \<Rightarrow> (case tier_score d of None \<Rightarrow> Inl (KeyError ''score'') | Some s \<Rightarrow> Inr s))"

definition credit :: "salutation_feedback \<Rightarrow> rat result \<Rightarrow> (rat \<times> salutation_feedback) result" where
  "credit fb r = (case r of Inl e \<Rightarrow> Inl e | Inr s \<Rightarrow> Inr (s, fb))"

definition score_salutation ::
  "string \<Rightarrow> salutation_cfg \<Rightarrow> (rat \<times> salutation_feedback) result" where
  "score_salutation text rubric_salutation =
     (let txt = lower text;
          rules = dget (sal_rules rubric_salutation) no_salutation_rules
      in if any_kw_in txt (keywords_of (excellent rules)) then
           credit ExcellentSalutation (tier_score_item ''excellent'' (excellent rules))
         else if any_kw_in txt (keywords_of (good rules)) then
           credit GoodSalutation (tier_score_item ''good'' (good rules))
         else if any_kw_in txt (keywords_of (normal rules)) then
           credit NormalSalutation (tier_score_item ''normal'' (normal rules))
         else
           Inr (dget (tier_score (dget (no_salutation rules) no_tier)) 0, NoClearSalutation))"

subsection \<open>External collaborators and float rounding\<close>

text \<open>
  \<open>tool_check\<close> is \<open>len(tool.check(text))\<close>, \<open>polarity_pos\<close> is
  \<open>analyzer.polarity_scores(text)['pos']\<close>, \<open>encode\<close> is \<open>model.encode\<close> and
  \<open>pytorch_cos_sim\<close> is \<open>float(util.pytorch_cos_sim(a, b))\<close>. The grammar checker, the
  analyser and the encoder may raise. \<open>py_round\<close> is the built-in \<open>round(x, n)\<close> on
  floats.
\<close>

record providers =
  word_tokenize :: "string \<Rightarrow> string list"
  sent_tokenize :: "string \<Rightarrow> string list"
  tool_check :: "string \<Rightarrow> nat result"
  polarity_pos :: "string \<Rightarrow> rat result"
  encode :: "string \<Rightarrow> rat list result"
  pytorch_cos_sim :: "rat list \<Rightarrow> rat list \<Rightarrow> rat"
  py_round :: "rat \<Rightarrow> nat \<Rightarrow> rat"

subsection \<open>scoring/semantic.py\<close>

text \<open>The loop over \<open>target_phrases\<close> that fills \<open>scores\<close>.\<close>

fun phrase_scores :: "providers \<Rightarrow> rat list \<Rightarrow> string list \<Rightarrow> rat list result" where
  "phrase_scores P text_emb [] = Inr []"
| "phrase_scores P text_emb (phrase # rest) =
     (case encode P phrase of
        Inl e \<Rightarrow> Inl e
      | Inr phrase_emb \<Rightarrow>
          (case phrase_scores P text_emb rest of
             Inl e \<Rightarrow> Inl e
           | Inr scores \<Rightarrow> Inr (pytorch_cos_sim P text_emb phrase_emb # scores)))"

definition semantic_similarity :: "providers \<Rightarrow> string \<Rightarrow> string list \<Rightarrow> rat result" where
  "semantic_similarity P text target_phrases =
     (case encode P text of
        Inl e \<Rightarrow> Inl e
      | Inr text_emb \<Rightarrow>
          (case phrase_scores P text_emb target_phrases of
             Inl e \<Rightarrow> Inl e
           | Inr scores \<Rightarrow>
               if length scores = 0 then Inl ZeroDivisionError
               else Inr (sum_list scores / of_nat (length scores))))"

subsection \<open>\<open>score_keyword_presence\<close>\<close>

datatype semantic_msg = SemanticMatch rat | SemanticWeak rat | SufficientExact

text \<open>
  One of the two loops \<open>for kw in ...\<close>: \<open>each\<close> is the group's
  \<open>get("score_each", default)\<close>, the pair is \<open>(found, raw_score)\<close>.
\<close>

fun match_keywords ::
  "string list \<Rightarrow> string \<Rightarrow> rat \<Rightarrow> string list \<Rightarrow> string list \<times> rat \<Rightarrow> string list \<times> rat" where
  "match_keywords words text_lower each [] (found, raw_score) = (found, raw_score)"
| "match_keywords words text_lower each (kw # kws) (found, raw_score) =
     (if CHR '' '' \<in> set kw then
        (if str_contains text_lower kw
         then match_keywords words text_lower each kws (found @ [kw], raw_score + each)
         else match_keywords words text_lower each kws (found, raw_score))
      else
        (if kw \<in> set words
         then match_keywords words text_lower each kws (found @ [kw], raw_score + each)
         else match_keywords words text_lower each kws (found, raw_score)))"

definition score_keyword_presence ::
  "providers \<Rightarrow> string list \<Rightarrow> string \<Rightarrow> keyword_cfg \<Rightarrow> rat \<times> string list \<times> semantic_msg" where
  "score_keyword_presence P words text rubric_kw =
     (let must = dget (must_have rubric_kw) no_keyword_group;
          good_to = dget (good_to_have rubric_kw) no_keyword_group;
          mw = dget (kw_keywords must) [];
          gw = dget (kw_keywords good_to) [];
          text_lower = lower text;
          after_must = match_keywords words text_lower (dget (score_each must) 4) mw ([], 0);
          after_good = match_keywords words text_lower (dget (score_each good_to) 2) gw after_must;
          found = fst after_good;
          raw_score = snd after_good
      in if length found < max 1 (length mw div 2) then
           (let target_phrases = mw @ gw;
                sim = (case semantic_similarity P text target_phrases of
                         Inl e \<Rightarrow> 0
                       | Inr s \<Rightarrow> s)
            in if sim \<ge> 6 / 10 then
                 (let bonus = (1 / 2) * sum_list (map (\<lambda>_. dget (score_each must) 4) mw)
                  in (raw_score + bonus, found @ [''semantic-match''], SemanticMatch sim))
               else (raw_score, found, SemanticWeak sim))
         else (raw_score, found, SufficientExact))"

subsection \<open>\<open>score_flow\<close>\<close>

definition indicators :: "(string \<times> string list) list" where
  "indicators =
     [(''salutation'',
         [''hello'', ''hi'', ''good morning'', ''good afternoon'', ''good evening'',
          ''good day'', ''excited to introduce'']),
      (''basic_details'',
         [''my name is'', ''i am'', ''i'm'', ''age'', ''years old'', ''class'', ''grade'',
          ''school'', ''studying in'', ''student of'']),
      (''optional_details'',
         [''family'', ''parents'', ''father'', ''mother'', ''hobby'', ''hobbies'',
          ''interest'', ''like to'', ''ambition'', ''goal'', ''dream'', ''strength'',
          ''weakness'', ''achievement'', ''fun fact'']),
      (''closing'', [''thank you'', ''thanks'', ''that's all'', ''bye''])]"

text \<open>\<open>min(pos_list)\<close> on a non-empty list.\<close>

fun list_min :: "int list \<Rightarrow> int" where
  "list_min [] = 0"
| "list_min (x # xs) = fold min xs x"

text \<open>\<open>min(pos_list) if pos_list else None\<close> for the indicator phrases of one category.\<close>

definition first_position :: "string \<Rightarrow> string list \<Rightarrow> int option" where
  "first_position text_l tokens =
     (let pos_list = map (str_find text_l) (filter (\<lambda>tok. str_find text_l tok \<noteq> - 1) tokens)
      in if pos_list = [] then None else Some (list_min pos_list))"

definition positions :: "string \<Rightarrow> (string \<times> int option) list" where
  "positions text_l = map (\<lambda>(key, tokens). (key, first_position text_l tokens)) indicators"

text \<open>\<open>positions.get(item)\<close>: \<open>None\<close> for an unknown key and for a category not found.\<close>

definition positions_get :: "string \<Rightarrow> string \<Rightarrow> int option" where
  "positions_get text_l item = (case map_of (positions text_l) item of None \<Rightarrow> None | Some p \<Rightarrow> p)"

fun build_seq :: "string \<Rightarrow> string list \<Rightarrow> (string \<times> int) list" where
  "build_seq text_l [] = []"
| "build_seq text_l (item # rest) =
     (case positions_get text_l item of
        None \<Rightarrow> build_seq text_l rest
      | Some pos \<Rightarrow> (item, pos) # build_seq text_l rest)"

text \<open>\<open>all(seq[i][1] <= seq[i+1][1] for i in range(len(seq)-1))\<close>.\<close>

fun adjacent_le :: "(string \<times> int) list \<Rightarrow> bool" where
  "adjacent_le [] = True"
| "adjacent_le [x] = True"
| "adjacent_le (x # y # rest) = (snd x \<le> snd y \<and> adjacent_le (y # rest))"

definition flow_config :: "flow_cfg \<Rightarrow> correct_order_cfg" where
  "flow_config rubric_flow =
     dget (correct_order (dget (fl_rules rubric_flow) no_flow_rules)) no_correct_order"

text \<open>The second component is \<open>is_correct\<close>, which selects the feedback text.\<close>

definition score_flow :: "string \<Rightarrow> flow_cfg \<Rightarrow> rat \<times> bool" where
  "score_flow text rubric_flow =
     (let order_spec = dget (order (flow_config rubric_flow)) [];
          text_l = lower text;
          seq = build_seq text_l order_spec;
          is_correct = (if length seq < 2 then False else adjacent_le seq);
          score = (if is_correct then dget (co_score (flow_config rubric_flow)) 5 else 0)
      in (score, is_correct))"

subsection \<open>\<open>score_speech_rate\<close>\<close>

datatype rate_feedback =
  DurationNotProvided | TooFast rat | Fast rat | Ideal rat | Slow rat | TooSlow rat

definition bucket_score :: "tier option \<Rightarrow> rat \<Rightarrow> rat" where
  "bucket_score t d = dget (tier_score (dget t no_tier)) d"

definition score_speech_rate ::
  "nat \<Rightarrow> rat option \<Rightarrow> speech_rate_cfg \<Rightarrow> rat \<times> rate_feedback" where
  "score_speech_rate word_count duration_seconds rubric_sr =
     (let rules = dget (sr_rules rubric_sr) no_rate_rules
      in case duration_seconds of
           None \<Rightarrow> (bucket_score (ideal rules) 10 / 2, DurationNotProvided)
         | Some d \<Rightarrow>
             if d = 0 \<or> d \<le> 0 \<or> word_count = 0 then
               (bucket_score (ideal rules) 10 / 2, DurationNotProvided)
             else
               (let wpm = (of_nat word_count / d) * 60
                in if wpm > 161 then (bucket_score (too_fast rules) 2, TooFast wpm)
                   else if 141 \<le> wpm \<and> wpm \<le> 160 then (bucket_score (fast rules) 6, Fast wpm)
                   else if 111 \<le> wpm \<and> wpm \<le> 140 then (bucket_score (ideal rules) 10, Ideal wpm)
                   else if 81 \<le> wpm \<and> wpm \<le> 110 then (bucket_score (slow rules) 6, Slow wpm)
                   else (bucket_score (too_slow rules) 2, TooSlow wpm)))"

subsection \<open>\<open>score_filler_words\<close>\<close>

datatype filler_feedback = NoWords | FillerDetected nat rat

definition score_filler_words :: "nat \<Rightarrow> nat \<Rightarrow> clarity_cfg \<Rightarrow> rat \<times> filler_feedback" where
  "score_filler_words filler_count total_words rubric_clarity =
     (let scoring_tbl =
            dget (scoring (dget (filler_words rubric_clarity) no_filler_cfg)) no_filler_scoring
      in if total_words = 0 then (dget (b0_3 scoring_tbl) 15, NoWords)
         else
           (let rate_percent = (of_nat filler_count / of_nat total_words) * 100;
                fc = filler_count;
                score =
                  (if fc \<le> 3 then dget (b0_3 scoring_tbl) 15
                   else if 4 \<le> fc \<and> fc \<le> 6 then dget (b4_6 scoring_tbl) 12
                   else if 7 \<le> fc \<and> fc \<le> 9 then dget (b7_9 scoring_tbl) 9
                   else if 10 \<le> fc \<and> fc \<le> 12 then dget (b10_12 scoring_tbl) 6
                   else dget (b13_plus scoring_tbl) 3)
            in (score, FillerDetected filler_count rate_percent)))"

subsection \<open>scoring/grammar.py, scoring/vocabulary.py, scoring/sentiment.py\<close>

definition grammar_score :: "providers \<Rightarrow> string \<Rightarrow> nat \<Rightarrow> (rat \<times> nat) result" where
  "grammar_score P text total_words =
     (case tool_check P text of
        Inl e \<Rightarrow> Inl e
      | Inr errors \<Rightarrow>
          if total_words = 0 then Inr (10, 0)
          else
            (let errors_per_100 = (of_nat errors / of_nat total_words) * (100 :: rat);
                 score_ratio = 1 - min (errors_per_100 / 10) 1;
                 score =
                   (if score_ratio \<ge> 9 / 10 then 10
                    else if score_ratio \<ge> 7 / 10 then 8
                    else if score_ratio \<ge> 5 / 10 then 6
                    else if score_ratio \<ge> 3 / 10 then 4
                    else 2)
             in Inr (score, errors)))"

definition vocabulary_score :: "string list \<Rightarrow> rat \<times> rat" where
  "vocabulary_score words =
     (if length words = 0 then (10, 1)
      else
        (let distinct_n = length (remdups words);
             ttr = of_nat distinct_n / of_nat (length words);
             score =
               (if ttr \<ge> 9 / 10 then 10
                else if ttr \<ge> 7 / 10 then 8
                else if ttr \<ge> 5 / 10 then 6
                else if ttr \<ge> 3 / 10 then 4
                else 2)
         in (score, ttr)))"

definition sentiment_score :: "providers \<Rightarrow> string \<Rightarrow> (rat \<times> rat) result" where
  "sentiment_score P text =
     (case polarity_pos P text of
        Inl e \<Rightarrow> Inl e
      | Inr polarity \<Rightarrow>
          (let score =
                 (if polarity \<ge> 9 / 10 then 15
                  else if polarity \<ge> 7 / 10 then 12
                  else if polarity \<ge> 5 / 10 then 9
                  else if polarity \<ge> 3 / 10 then 6
                  else 3)
           in Inr (score, polarity)))"

subsection \<open>scoring/preprocess.py\<close>

definition FILLER_WORDS :: "string list" where
  "FILLER_WORDS =
     [''um'', ''uh'', ''like'', ''you know'', ''so'', ''actually'', ''basically'', ''right'',
      ''i mean'', ''well'', ''kinda'', ''sort of'', ''okay'', ''hmm'', ''ah'']"

definition clean_text :: "string \<Rightarrow> string" where
  "clean_text text = strip (lower text)"

definition get_word_count :: "providers \<Rightarrow> string \<Rightarrow> nat \<times> string list" where
  "get_word_count P text = (let words = word_tokenize P text in (length words, words))"

definition get_sentence_count :: "providers \<Rightarrow> string \<Rightarrow> nat" where
  "get_sentence_count P text = length (sent_tokenize P text)"

definition count_filler_words :: "string list \<Rightarrow> nat" where
  "count_filler_words words = length (filter (\<lambda>w. w \<in> set FILLER_WORDS) words)"

subsection \<open>\<open>compute_scores\<close>\<close>

text \<open>
  The result dictionary. A \<open>component\<close> is an entry of \<open>results["components"]\<close> (for
  the two composite criteria \<open>c_raw\<close> and \<open>c_max\<close> are its \<open>raw_sum\<close> and \<open>max_sum\<close>);
  a \<open>subscore\<close> is an entry of a \<open>subscores\<close> dictionary. The text
  \<open>feedback_summary\<close>, which only formats values recorded here, is left out, and so is
  the branch that loads the rubric from a file when none is passed.
\<close>

record component =
  c_weight :: rat
  c_raw :: rat
  c_max :: rat
  c_fraction :: rat
  c_contribution :: rat

record subscore =
  raw :: rat
  max_score :: rat

record score_report =
  r_word_count :: nat
  r_sentence_count :: nat
  r_duration_seconds :: "rat option"
  r_content_and_structure :: component
  r_salutation :: subscore
  r_salutation_feedback :: salutation_feedback
  r_keyword_presence :: subscore
  r_found :: "string list"
  r_keyword_feedback :: semantic_msg
  r_flow :: subscore
  r_flow_feedback :: bool
  r_speech_rate :: component
  r_speech_rate_feedback :: rate_feedback
  r_language_and_grammar :: component
  r_grammar :: subscore
  r_errors :: nat
  r_vocabulary :: subscore
  r_ttr :: rat
  r_clarity :: component
  r_filler_feedback :: filler_feedback
  r_filler_count :: nat
  r_engagement :: component
  r_polarity :: rat
  r_total_weight :: rat
  r_weighted_score_sum :: rat
  r_overall_score :: rat

definition compute_scores ::
  "providers \<Rightarrow> string \<Rightarrow> rat option \<Rightarrow> rubric \<Rightarrow> score_report result" where
  "compute_scores P transcript duration_seconds rubric =
     (let text = clean_text transcript;
          word_count = fst (get_word_count P text);
          words = snd (get_word_count P text);
          sentence_count = get_sentence_count P text;
          filler_count = count_filler_words words;
          cs = dget (content_and_structure rubric) no_content_cfg;
          cs_w = dget (cs_weight cs) 0
      in case score_salutation transcript (dget (salutation cs) no_salutation_cfg) of
           Inl e \<Rightarrow> Inl e
         | Inr sal \<Rightarrow>
     (let sal_score_raw = fst sal;
          sal_max = dget (sal_weight (dget (salutation cs) no_salutation_cfg)) 5;
          kw = score_keyword_presence P words text (dget (keyword_presence cs) no_keyword_cfg);
          kw_raw = fst kw;
          kw_max = dget (kw_weight (dget (keyword_presence cs) no_keyword_cfg)) 30;
          kw_raw_clipped = min kw_raw kw_max;
          fl = score_flow text (dget (flow cs) no_flow_cfg);
          flow_raw = fst fl;
          flow_max = dget (co_score (flow_config (dget (flow cs) no_flow_cfg))) 5;
          cs_raw_sum = sal_score_raw + kw_raw_clipped + flow_raw;
          cs_max_sum = sal_max + kw_max + flow_max;
          cs_fraction = normalize_score cs_raw_sum cs_max_sum;
          cs_contribution = cs_fraction * cs_w;
          sr = dget (speech_rate rubric) no_speech_rate_cfg;
          sr_w = dget (sr_weight sr) 0;
          sr_res = score_speech_rate word_count duration_seconds sr;
          sr_score_raw = fst sr_res;
          sr_fraction = normalize_score sr_score_raw 10;
          sr_contribution = sr_fraction * sr_w;
          lang = dget (language_and_grammar rubric) no_language_cfg;
          lang_w = dget (lang_weight lang) 0
      in case grammar_score P transcript word_count of
           Inl e \<Rightarrow> Inl e
         | Inr gram \<Rightarrow>
     (let gram_score_raw = fst gram;
          gram_max = dget (weight (dget (grammar lang) no_weight_cfg)) 10;
          vocab = vocabulary_score words;
          vocab_score_raw = fst vocab;
          vocab_max = dget (weight (dget (vocabulary lang) no_weight_cfg)) 10;
          lang_raw_sum = gram_score_raw + vocab_score_raw;
          lang_max_sum = gram_max + vocab_max;
          lang_fraction = normalize_score lang_raw_sum lang_max_sum;
          lang_contribution = lang_fraction * lang_w;
          cl = dget (clarity rubric) no_clarity_cfg;
          clarity_w = dget (cl_weight cl) 0;
          filler = score_filler_words filler_count word_count cl;
          filler_score_raw = fst filler;
          filler_max = 15;
          filler_fraction = normalize_score filler_score_raw filler_max;
          filler_contribution = filler_fraction * clarity_w;
          engagement_w = dget (weight (dget (engagement rubric) no_weight_cfg)) 0
      in case sentiment_score P transcript of
           Inl e \<Rightarrow> Inl e
         | Inr sent \<Rightarrow>
     (let sent_score_raw = fst sent;
          sent_max = 15;
          sent_fraction = normalize_score sent_score_raw sent_max;
          sent_contribution = sent_fraction * engagement_w;
          total_weight = 0 + cs_w + sr_w + lang_w + clarity_w + engagement_w;
          weighted_score_sum =
            0 + cs_contribution + sr_contribution + lang_contribution + filler_contribution
              + sent_contribution;
          overall_pct =
            (if total_weight \<le> 0 then 0
             else py_round P ((weighted_score_sum / total_weight) * 100) 2)
      in Inr
           \<lparr>r_word_count = word_count,
            r_sentence_count = sentence_count,
            r_duration_seconds = duration_seconds,
            r_content_and_structure =
              \<lparr>c_weight = cs_w, c_raw = cs_raw_sum, c_max = cs_max_sum,
               c_fraction = py_round P cs_fraction 4, c_contribution = py_round P cs_contribution 3\<rparr>,
            r_salutation = \<lparr>raw = sal_score_raw, max_score = sal_max\<rparr>,
            r_salutation_feedback = snd sal,
            r_keyword_presence = \<lparr>raw = kw_raw_clipped, max_score = kw_max\<rparr>,
            r_found = fst (snd kw),
            r_keyword_feedback = snd (snd kw),
            r_flow = \<lparr>raw = flow_raw, max_score = flow_max\<rparr>,
            r_flow_feedback = snd fl,
            r_speech_rate =
              \<lparr>c_weight = sr_w, c_raw = sr_score_raw, c_max = 10,
               c_fraction = py_round P sr_fraction 4, c_contribution = py_round P sr_contribution 3\<rparr>,
            r_speech_rate_feedback = snd sr_res,
            r_language_and_grammar =
              \<lparr>c_weight = lang_w, c_raw = lang_raw_sum, c_max = lang_max_sum,
               c_fraction = py_round P lang_fraction 4,
               c_contribution = py_round P lang_contribution 3\<rparr>,
            r_grammar = \<lparr>raw = gram_score_raw, max_score = gram_max\<rparr>,
            r_errors = snd gram,
            r_vocabulary = \<lparr>raw = vocab_score_raw, max_score = vocab_max\<rparr>,
            r_ttr = py_round P (snd vocab) 3,
            r_clarity =
              \<lparr>c_weight = clarity_w, c_raw = filler_score_raw, c_max = filler_max,
               c_fraction = py_round P filler_fraction 4,
               c_contribution = py_round P filler_contribution 3\<rparr>,
            r_filler_feedback = snd filler,
            r_filler_count = filler_count,
            r_engagement =
              \<lparr>c_weight = engagement_w, c_raw = sent_score_raw, c_max = sent_max,
               c_fraction = py_round P sent_fraction 4,
               c_contribution = py_round P sent_contribution 3\<rparr>,
            r_polarity = snd sent,
            r_total_weight = total_weight,
            r_weighted_score_sum = py_round P weighted_score_sum 3,
            r_overall_score = overall_pct\<rparr>))))"

subsection \<open>Stand-ins and specification-level notions used in the statements\<close>

text \<open>
  Deterministic collaborators returning fixed metrics: the tokeniser returns \<open>ws\<close>, the
  grammar checker reports \<open>m\<close> matches, the analyser returns polarity \<open>p\<close>, every
  cosine similarity is \<open>0\<close>, and \<open>py_round\<close> returns its argument unchanged.
\<close>

definition stub_providers :: "string list \<Rightarrow> nat \<Rightarrow> rat \<Rightarrow> providers" where
  "stub_providers ws m p =
     \<lparr>word_tokenize = (\<lambda>_. ws), sent_tokenize = (\<lambda>_. []),
      tool_check = (\<lambda>_. Inr m), polarity_pos = (\<lambda>_. Inr p),
      encode = (\<lambda>_. Inr []), pytorch_cos_sim = (\<lambda>_ _. 0), py_round = (\<lambda>x _. x)\<rparr>"

text \<open>The score configured for the speech-rate bucket \<open>ideal\<close>, \<open>10\<close> when it is absent.\<close>

definition configured_ideal_score :: "speech_rate_cfg \<Rightarrow> rat" where
  "configured_ideal_score rubric_sr =
     (case sr_rules rubric_sr of
        None \<Rightarrow> 10
      | Some rules \<Rightarrow>
          (case ideal rules of
             None \<Rightarrow> 10
           | Some t \<Rightarrow> (case tier_score t of None \<Rightarrow> 10 | Some s \<Rightarrow> s)))"

text \<open>
  A partial rubric: only the salutation tier \<open>normal\<close> is present, with a keyword list
  and no \<open>score\<close>.
\<close>

definition rubric_normal_without_score :: rubric where
  "rubric_normal_without_score =
     empty_rubric
       \<lparr>content_and_structure :=
          Some (no_content_cfg
            \<lparr>salutation :=
               Some (no_salutation_cfg
                 \<lparr>sal_rules :=
                    Some (no_salutation_rules
                      \<lparr>normal :=
                         Some \<lparr>tier_keywords = Some [''hello''], tier_score = None\<rparr>\<rparr>)\<rparr>)\<rparr>)\<rparr>"

text \<open>\<open>sub\<close> occurs in \<open>s\<close> as a contiguous substring.\<close>

definition is_substring :: "string \<Rightarrow> string \<Rightarrow> bool" where
  "is_substring sub s = (\<exists>pre suf. s = pre @ sub @ suf)"

text \<open>Some keyword of the tier is a substring of the text.\<close>

definition tier_matches :: "string \<Rightarrow> tier option \<Rightarrow> bool" where
  "tier_matches txt t =
     (case t of
        None \<Rightarrow> False
      | Some d \<Rightarrow>
          (case tier_keywords d of
             None \<Rightarrow> False
           | Some kws \<Rightarrow> (\<exists>kw \<in> set kws. is_substring kw txt)))"

text \<open>The salutation tiers in their priority order, each with the feedback it selects.\<close>

definition tiers_by_priority :: "salutation_cfg \<Rightarrow> (salutation_feedback \<times> tier option) list" where
  "tiers_by_priority cfg =
     (case sal_rules cfg of
        None \<Rightarrow> []
      | Some rules \<Rightarrow>
          [(ExcellentSalutation, excellent rules), (GoodSalutation, good rules),
           (NormalSalutation, normal rules)])"

text \<open>The score configured for \<open>no_salutation\<close>, \<open>0\<close> when it is absent.\<close>

definition no_salutation_score :: "salutation_cfg \<Rightarrow> rat" where
  "no_salutation_score cfg =
     (case sal_rules cfg of
        None \<Rightarrow> 0
      | Some rules \<Rightarrow>
          (case no_salutation rules of
             None \<Rightarrow> 0
           | Some d \<Rightarrow> (case tier_score d of None \<Rightarrow> 0 | Some s \<Rightarrow> s)))"

text \<open>A salutation rule set whose only tier, \<open>normal\<close>, has a keyword and no \<open>score\<close>.\<close>

definition normal_tier_without_score :: salutation_cfg where
  "normal_tier_without_score =
     \<lparr>sal_weight = None,
      sal_rules = Some
        \<lparr>excellent = None, good = None,
         normal = Some \<lparr>tier_keywords = Some [''hello''], tier_score = None\<rparr>,
         no_salutation = None\<rparr>\<rparr>"

text \<open>The keyword lists and per-keyword scores of a keyword rule, with the defaults of the code.\<close>

definition must_keywords :: "keyword_cfg \<Rightarrow> string list" where
  "must_keywords cfg =
     (case must_have cfg of
        None \<Rightarrow> []
      | Some g \<Rightarrow> (case kw_keywords g of None \<Rightarrow> [] | Some kws \<Rightarrow> kws))"

definition good_keywords :: "keyword_cfg \<Rightarrow> string list" where
  "good_keywords cfg =
     (case good_to_have cfg of
        None \<Rightarrow> []
      | Some g \<Rightarrow> (case kw_keywords g of None \<Rightarrow> [] | Some kws \<Rightarrow> kws))"

definition must_score_each :: "keyword_cfg \<Rightarrow> rat" where
  "must_score_each cfg =
     (case must_have cfg of
        None \<Rightarrow> 4
      | Some g \<Rightarrow> (case score_each g of None \<Rightarrow> 4 | Some e \<Rightarrow> e))"

definition good_score_each :: "keyword_cfg \<Rightarrow> rat" where
  "good_score_each cfg =
     (case good_to_have cfg of
        None \<Rightarrow> 2
      | Some g \<Rightarrow> (case score_each g of None \<Rightarrow> 2 | Some e \<Rightarrow> e))"

text \<open>
  A keyword with a space in it is matched as a substring of the lowercased text, any
  other keyword as a member of the token set.
\<close>

definition kw_matches :: "string list \<Rightarrow> string \<Rightarrow> string \<Rightarrow> bool" where
  "kw_matches words text_lower kw =
     (if CHR '' '' \<in> set kw then is_substring kw text_lower else kw \<in> set words)"

text \<open>The exactly matched keywords, must-have before good-to-have, and what they score.\<close>

definition exact_found :: "string list \<Rightarrow> string \<Rightarrow> keyword_cfg \<Rightarrow> string list" where
  "exact_found words text cfg =
     filter (kw_matches words (lower text)) (must_keywords cfg)
     @ filter (kw_matches words (lower text)) (good_keywords cfg)"

definition exact_score :: "string list \<Rightarrow> string \<Rightarrow> keyword_cfg \<Rightarrow> rat" where
  "exact_score words text cfg =
     must_score_each cfg * of_nat (length (filter (kw_matches words (lower text)) (must_keywords cfg)))
     + good_score_each cfg * of_nat (length (filter (kw_matches words (lower text)) (good_keywords cfg)))"

text \<open>
  The similarity between the text and the must-have plus good-to-have phrases, \<open>0\<close>
  when the provider raises.
\<close>

definition similarity_or_zero :: "providers \<Rightarrow> string \<Rightarrow> keyword_cfg \<Rightarrow> rat" where
  "similarity_or_zero P text cfg =
     (case semantic_similarity P text (must_keywords cfg @ good_keywords cfg) of
        Inl e \<Rightarrow> 0
      | Inr s \<Rightarrow> s)"

text \<open>The maximum configured for keyword presence (default \<open>30\<close>) and the rule itself.\<close>

definition configured_kw_max :: "rubric \<Rightarrow> rat" where
  "configured_kw_max r =
     (case content_and_structure r of
        None \<Rightarrow> 30
      | Some cs \<Rightarrow>
          (case keyword_presence cs of
             None \<Rightarrow> 30
           | Some k \<Rightarrow> (case kw_weight k of None \<Rightarrow> 30 | Some w \<Rightarrow> w)))"

definition keyword_cfg_of :: "rubric \<Rightarrow> keyword_cfg" where
  "keyword_cfg_of r =
     (case content_and_structure r of
        None \<Rightarrow> no_keyword_cfg
      | Some cs \<Rightarrow> (case keyword_presence cs of None \<Rightarrow> no_keyword_cfg | Some k \<Rightarrow> k))"

text \<open>The five top-level criteria of a report.\<close>

definition components :: "score_report \<Rightarrow> component list" where
  "components rep =
     [r_content_and_structure rep, r_speech_rate rep, r_language_and_grammar rep,
      r_clarity rep, r_engagement rep]"

text \<open>
  Stand-ins whose encoder returns and whose every cosine similarity is \<open>0.9\<close>, and
  stand-ins whose encoder is unavailable.
\<close>

definition similar_providers :: "string list \<Rightarrow> providers" where
  "similar_providers ws = (stub_providers ws 0 0)\<lparr>pytorch_cos_sim := (\<lambda>_ _. 9 / 10)\<rparr>"

definition unavailable_encoder :: "string list \<Rightarrow> providers" where
  "unavailable_encoder ws =
     (stub_providers ws 0 0)\<lparr>encode := (\<lambda>_. Inl (ProviderError ''unavailable''))\<rparr>"

text \<open>Two keyword rules and the rubric that holds one of them and nothing else.\<close>

definition four_keyword_cfg :: keyword_cfg where
  "four_keyword_cfg =
     \<lparr>kw_weight = Some 10,
      must_have = Some \<lparr>kw_keywords = Some [''name'', ''age'', ''school'', ''hobby''],
                        score_each = Some 4\<rparr>,
      good_to_have = Some \<lparr>kw_keywords = Some [''family''], score_each = Some 2\<rparr>\<rparr>"

definition three_keyword_cfg :: keyword_cfg where
  "three_keyword_cfg =
     \<lparr>kw_weight = Some 30,
      must_have = Some \<lparr>kw_keywords = Some [''name'', ''age'', ''school''], score_each = Some 4\<rparr>,
      good_to_have = None\<rparr>"

definition keyword_rubric :: "keyword_cfg \<Rightarrow> rubric" where
  "keyword_rubric k =
     empty_rubric
       \<lparr>content_and_structure := Some (no_content_cfg\<lparr>keyword_presence := Some k\<rparr>)\<rparr>"

text \<open>The salutation rule set of a rubric, empty when absent.\<close>

definition salutation_cfg_of :: "rubric \<Rightarrow> salutation_cfg" where
  "salutation_cfg_of r =
     (case content_and_structure r of
        None \<Rightarrow> no_salutation_cfg
      | Some cs \<Rightarrow> (case salutation cs of None \<Rightarrow> no_salutation_cfg | Some s \<Rightarrow> s))"

text \<open>\<open>sub\<close> occurs in \<open>s\<close> at index \<open>i\<close>.\<close>

definition occurs_at :: "string \<Rightarrow> string \<Rightarrow> nat \<Rightarrow> bool" where
  "occurs_at s sub i = (i \<le> length s \<and> take (length sub) (drop i s) = sub)"

text \<open>No phrase of \<open>toks\<close> occurs in the text.\<close>

definition none_occurs :: "string \<Rightarrow> string list \<Rightarrow> bool" where
  "none_occurs txt toks = (\<forall>tok \<in> set toks. \<forall>j. \<not> occurs_at txt tok j)"

text \<open>
  \<open>p\<close> is the earliest position at which a phrase of \<open>toks\<close> occurs: some phrase
  occurs at \<open>p\<close>, and none occurs before it.
\<close>

definition is_earliest :: "string \<Rightarrow> string list \<Rightarrow> int \<Rightarrow> bool" where
  "is_earliest txt toks p =
     (0 \<le> p \<and> (\<exists>tok \<in> set toks. occurs_at txt tok (nat p))
      \<and> (\<forall>tok \<in> set toks. \<forall>j. occurs_at txt tok j \<longrightarrow> p \<le> int j))"

text \<open>The target order and the score of a flow rule, with the defaults of the code.\<close>

definition target_order :: "flow_cfg \<Rightarrow> string list" where
  "target_order cfg =
     (case fl_rules cfg of
        None \<Rightarrow> []
      | Some rules \<Rightarrow>
          (case correct_order rules of
             None \<Rightarrow> []
           | Some co \<Rightarrow> (case order co of None \<Rightarrow> [] | Some xs \<Rightarrow> xs)))"

definition configured_flow_score :: "flow_cfg \<Rightarrow> rat" where
  "configured_flow_score cfg =
     (case fl_rules cfg of
        None \<Rightarrow> 5
      | Some rules \<Rightarrow>
          (case correct_order rules of
             None \<Rightarrow> 5
           | Some co \<Rightarrow> (case co_score co of None \<Rightarrow> 5 | Some s \<Rightarrow> s)))"

text \<open>
  The position of a category, absent for a name that is no category and for a category
  none of whose indicator phrases occurs; and the entries of the target order that have a
  position, in target order.
\<close>

definition category_position :: "string \<Rightarrow> string \<Rightarrow> int option" where
  "category_position txt item =
     (case map_of indicators item of None \<Rightarrow> None | Some toks \<Rightarrow> first_position txt toks)"

definition found_categories :: "string \<Rightarrow> flow_cfg \<Rightarrow> (string \<times> int) list" where
  "found_categories txt cfg =
     List.map_filter (\<lambda>item. map_option (Pair item) (category_position txt item))
       (target_order cfg)"

text \<open>A flow rule with the full target order and score \<open>7\<close>.\<close>

definition example_flow_cfg :: flow_cfg where
  "example_flow_cfg =
     \<lparr>fl_rules = Some \<lparr>correct_order = Some
        \<lparr>order = Some [''salutation'', ''basic_details'', ''optional_details'', ''closing''],
         co_score = Some 7\<rparr>\<rparr>\<rparr>"

text \<open>The rule sets of a rubric that the aggregator passes to the scorers.\<close>

definition flow_cfg_of :: "rubric \<Rightarrow> flow_cfg" where
  "flow_cfg_of r = dget (flow (dget (content_and_structure r) no_content_cfg)) no_flow_cfg"

definition speech_rate_cfg_of :: "rubric \<Rightarrow> speech_rate_cfg" where
  "speech_rate_cfg_of r = dget (speech_rate r) no_speech_rate_cfg"

definition language_cfg_of :: "rubric \<Rightarrow> language_cfg" where
  "language_cfg_of r = dget (language_and_grammar r) no_language_cfg"

definition clarity_cfg_of :: "rubric \<Rightarrow> clarity_cfg" where
  "clarity_cfg_of r = dget (clarity r) no_clarity_cfg"

text \<open>The maxima the report records for salutation, grammar and vocabulary.\<close>

definition configured_sal_max :: "rubric \<Rightarrow> rat" where
  "configured_sal_max r = dget (sal_weight (salutation_cfg_of r)) 5"

definition configured_grammar_max :: "rubric \<Rightarrow> rat" where
  "configured_grammar_max r = dget (weight (dget (grammar (language_cfg_of r)) no_weight_cfg)) 10"

definition configured_vocabulary_max :: "rubric \<Rightarrow> rat" where
  "configured_vocabulary_max r =
     dget (weight (dget (vocabulary (language_cfg_of r)) no_weight_cfg)) 10"

text \<open>A score that is absent, or lies between \<open>0\<close> and \<open>m\<close>.\<close>

definition absent_or_within :: "rat \<Rightarrow> rat option \<Rightarrow> bool" where
  "absent_or_within m s = (case s of None \<Rightarrow> True | Some x \<Rightarrow> 0 \<le> x \<and> x \<le> m)"

text \<open>
  Every score the rubric configures lies between \<open>0\<close> and the maximum of its component:
  the salutation scores within the salutation maximum, the keyword scores and maximum and
  the flow score non-negative, the speech-rate scores within \<open>10\<close>, the grammar and
  vocabulary maxima at least \<open>10\<close>, the filler scores within \<open>15\<close>. Absent entries
  count with the defaults of the code.
\<close>

definition well_scaled :: "rubric \<Rightarrow> bool" where
  "well_scaled r =
     (let sal = dget (sal_rules (salutation_cfg_of r)) no_salutation_rules;
          kw = keyword_cfg_of r;
          sr = dget (sr_rules (speech_rate_cfg_of r)) no_rate_rules;
          fw = dget (scoring (dget (filler_words (clarity_cfg_of r)) no_filler_cfg))
                 no_filler_scoring
      in 0 \<le> configured_sal_max r
         \<and> list_all (\<lambda>t. absent_or_within (configured_sal_max r) (tier_score (dget t no_tier)))
             [excellent sal, good sal, normal sal, no_salutation sal]
         \<and> 0 \<le> must_score_each kw \<and> 0 \<le> good_score_each kw \<and> 0 \<le> configured_kw_max r
         \<and> 0 \<le> configured_flow_score (flow_cfg_of r)
         \<and> list_all (\<lambda>(t, d). 0 \<le> bucket_score t d \<and> bucket_score t d \<le> 10)
             [(too_fast sr, 2), (fast sr, 6), (ideal sr, 10), (slow sr, 6), (too_slow sr, 2)]
         \<and> 10 \<le> configured_grammar_max r
         \<and> 10 \<le> configured_vocabulary_max r
         \<and> list_all (\<lambda>(s, d). 0 \<le> dget s d \<and> dget s d \<le> 15)
             [(b0_3 fw, 15), (b4_6 fw, 12), (b7_9 fw, 9), (b10_12 fw, 6), (b13_plus fw, 3)])"

text \<open>
  Every raw score of a report with its maximum: the five criteria, then salutation,
  keyword presence, flow, grammar and vocabulary.
\<close>

definition raw_max_pairs :: "score_report \<Rightarrow> (rat \<times> rat) list" where
  "raw_max_pairs rep =
     map (\<lambda>c. (c_raw c, c_max c)) (components rep)
     @ map (\<lambda>s. (raw s, max_score s))
         [r_salutation rep, r_keyword_presence rep, r_flow rep, r_grammar rep,
          r_vocabulary rep]"

text \<open>
  A rubric that gives only weights, one of them negative, with a positive total; and a
  rubric whose grammar maximum is \<open>5\<close> and whose must-have keyword scores \<open>-4\<close>.
\<close>

definition signed_weight_rubric :: rubric where
  "signed_weight_rubric =
     empty_rubric
       \<lparr>speech_rate := Some \<lparr>sr_weight = Some (- 1), sr_rules = None\<rparr>,
        clarity := Some \<lparr>cl_weight = Some 2, filler_words = None\<rparr>\<rparr>"

definition off_scale_rubric :: rubric where
  "off_scale_rubric =
     empty_rubric
       \<lparr>content_and_structure :=
          Some (no_content_cfg
            \<lparr>keyword_presence :=
               Some \<lparr>kw_weight = None,
                     must_have = Some \<lparr>kw_keywords = Some [''hello''], score_each = Some (- 4)\<rparr>,
                     good_to_have = None\<rparr>\<rparr>),
        language_and_grammar :=
          Some \<lparr>lang_weight = Some 20, grammar = Some \<lparr>weight = Some 5\<rparr>, vocabulary = None\<rparr>\<rparr>"

section \<open>Verified properties\<close>

subsection \<open>Speech rate\<close>

lemma bucket_score_ideal:
  "bucket_score (ideal (dget (sr_rules rubric_sr) no_rate_rules)) 10 =
     configured_ideal_score rubric_sr"
  by (simp add: bucket_score_def configured_ideal_score_def no_rate_rules_def no_tier_def
      split: option.splits)

text \<open>
  Claim C9. When the duration is \<open>None\<close>, zero or negative, or the word count is zero,
  \<open>score_speech_rate\<close> returns half of the score configured for the bucket \<open>ideal\<close>
  (\<open>10 / 2 = 5\<close> when nothing is configured) with the feedback that the duration was
  not provided.
\<close>

theorem speech_rate_neutral_fallback:
  assumes "duration_seconds = None \<or> (\<exists>d. duration_seconds = Some d \<and> d \<le> 0) \<or> word_count = 0"
  shows "score_speech_rate word_count duration_seconds rubric_sr =
           (configured_ideal_score rubric_sr / 2, DurationNotProvided)
         \<and> configured_ideal_score no_speech_rate_cfg / 2 = 5"
proof -
  have "score_speech_rate word_count duration_seconds rubric_sr =
          (bucket_score (ideal (dget (sr_rules rubric_sr) no_rate_rules)) 10 / 2,
           DurationNotProvided)"
  proof (cases duration_seconds)
    case None
    then show ?thesis by (simp add: score_speech_rate_def)
  next
    case (Some d)
    with assms have "d \<le> 0 \<or> word_count = 0" by auto
    with Some show ?thesis by (auto simp add: score_speech_rate_def)
  qed
  moreover have "configured_ideal_score no_speech_rate_cfg / 2 = 5"
    by (simp add: configured_ideal_score_def no_speech_rate_cfg_def)
  ultimately show ?thesis by (simp add: bucket_score_ideal)
qed

theorem speech_rate_neutral_fallback_witness:
  "score_speech_rate 12 (Some 0)
     \<lparr>sr_weight = Some 10,
      sr_rules = Some (no_rate_rules\<lparr>ideal := Some \<lparr>tier_keywords = None, tier_score = Some 8\<rparr>\<rparr>)\<rparr>
   = (4, DurationNotProvided)"
proof -
  have h: "Some (0::rat) = None \<or> (\<exists>d. Some (0::rat) = Some d \<and> d \<le> 0) \<or> (12::nat) = 0"
    by simp
  show ?thesis
    using speech_rate_neutral_fallback [OF h, of "\<lparr>sr_weight = Some 10,
      sr_rules = Some (no_rate_rules\<lparr>ideal := Some \<lparr>tier_keywords = None, tier_score = Some 8\<rparr>\<rparr>)\<rparr>"]
    by (simp add: configured_ideal_score_def no_rate_rules_def)
qed

text \<open>
  Claim C3. At 140 and at 141 words per minute the buckets are \<open>ideal\<close> and \<open>fast\<close>.
  At 161 words in 60 seconds the rate is exactly 161 words per minute: the test
  \<open>wpm > 161\<close> fails, none of the three closed ranges contains 161, and the final
  \<open>else\<close> credits the bucket \<open>too_slow\<close>, for every rubric.
\<close>

theorem speech_rate_161_scored_too_slow:
  "score_speech_rate 140 (Some 60) rubric_sr =
     (bucket_score (ideal (dget (sr_rules rubric_sr) no_rate_rules)) 10, Ideal 140)
   \<and> score_speech_rate 141 (Some 60) rubric_sr =
     (bucket_score (fast (dget (sr_rules rubric_sr) no_rate_rules)) 6, Fast 141)
   \<and> score_speech_rate 161 (Some 60) rubric_sr =
     (bucket_score (too_slow (dget (sr_rules rubric_sr) no_rate_rules)) 2, TooSlow 161)"
  by (simp add: score_speech_rate_def Let_def)

subsection \<open>Grammar, vocabulary and sentiment\<close>

lemma grammar_score_returns:
  assumes "tool_check P text = Inr m"
  shows "\<exists>s. grammar_score P text n = Inr (s, if n = 0 then 0 else m) \<and> s \<in> {2, 4, 6, 8, 10}
             \<and> (n = 0 \<longrightarrow> s = 10)"
  using assms by (simp add: grammar_score_def Let_def)

lemma vocabulary_score_set: "fst (vocabulary_score ws) \<in> {2, 4, 6, 8, 10}"
  by (simp add: vocabulary_score_def Let_def)

lemma vocabulary_ttr_range: "0 < snd (vocabulary_score ws) \<and> snd (vocabulary_score ws) \<le> 1"
proof (cases ws)
  case Nil
  then show ?thesis by (simp add: vocabulary_score_def)
next
  case (Cons w rest)
  have ne: "ws \<noteq> []" using Cons by simp
  then have pos: "0 < length (remdups ws)" by (cases "remdups ws") simp_all
  have le: "length (remdups ws) \<le> length ws" by (rule length_remdups_leq)
  have len: "0 < length ws" using ne by simp
  have "0 < (of_nat (length (remdups ws)) :: rat) / of_nat (length ws)"
    using pos len by simp
  moreover have "(of_nat (length (remdups ws)) :: rat) / of_nat (length ws) \<le> 1"
    using le len by (simp add: divide_le_eq_1)
  ultimately show ?thesis using ne by (simp add: vocabulary_score_def Let_def)
qed

lemma sentiment_score_returns:
  assumes "polarity_pos P text = Inr p"
  shows "\<exists>s. sentiment_score P text = Inr (s, p) \<and> s \<in> {3, 6, 9, 12, 15}"
  using assms by (simp add: sentiment_score_def Let_def)

text \<open>
  Claim C10. Whatever the rubric, the leaf scorers return scores from fixed sets:
  \<open>grammar_score\<close> returns a score in \<open>{2, 4, 6, 8, 10}\<close> whenever the checker returns,
  and \<open>(10, 0)\<close> for zero words; \<open>vocabulary_score\<close> returns a score in
  \<open>{2, 4, 6, 8, 10}\<close> with a type-token ratio in \<open>(0, 1]\<close>, and \<open>(10, 1)\<close> for the empty
  word list; \<open>sentiment_score\<close> returns a score in \<open>{3, 6, 9, 12, 15}\<close> whenever the
  analyser returns.
\<close>

theorem leaf_scorers_fixed_sets:
  "(\<forall>m. tool_check P text = Inr m \<longrightarrow>
      (\<exists>s. grammar_score P text n = Inr (s, if n = 0 then 0 else m) \<and> s \<in> {2, 4, 6, 8, 10}
           \<and> (n = 0 \<longrightarrow> s = 10)))
   \<and> (\<forall>s e. grammar_score P text n = Inr (s, e) \<longrightarrow> s \<in> {2, 4, 6, 8, 10})
   \<and> fst (vocabulary_score ws) \<in> {2, 4, 6, 8, 10}
   \<and> 0 < snd (vocabulary_score ws) \<and> snd (vocabulary_score ws) \<le> 1
   \<and> vocabulary_score [] = (10, 1)
   \<and> (\<forall>p. polarity_pos P text = Inr p \<longrightarrow>
        (\<exists>s. sentiment_score P text = Inr (s, p) \<and> s \<in> {3, 6, 9, 12, 15}))
   \<and> (\<forall>s p. sentiment_score P text = Inr (s, p) \<longrightarrow> s \<in> {3, 6, 9, 12, 15})"
proof -
  have g: "\<forall>s e. grammar_score P text n = Inr (s, e) \<longrightarrow> s \<in> {2, 4, 6, 8, 10}"
    by (auto simp add: grammar_score_def Let_def split: sum.splits if_splits)
  have s: "\<forall>s p. sentiment_score P text = Inr (s, p) \<longrightarrow> s \<in> {3, 6, 9, 12, 15}"
    by (auto simp add: sentiment_score_def Let_def split: sum.splits if_splits)
  have v: "vocabulary_score [] = (10, 1)" by (simp add: vocabulary_score_def)
  show ?thesis
    using g s v grammar_score_returns [of P "text" _ n] vocabulary_score_set [of ws]
      vocabulary_ttr_range [of ws] sentiment_score_returns [of P "text"]
    by blast
qed

theorem leaf_scorers_fixed_sets_witness:
  "grammar_score (stub_providers [] 3 (1 / 2)) ''we is here'' 3 = Inr (2, 3)
   \<and> grammar_score (stub_providers [] 3 (1 / 2)) ''we is here'' 0 = Inr (10, 0)
   \<and> vocabulary_score [''a'', ''b'', ''a'', ''a''] = (6, 1 / 2)
   \<and> sentiment_score (stub_providers [] 3 (1 / 2)) ''fine'' = Inr (9, 1 / 2)"
proof -
  have t: "tool_check (stub_providers [] 3 (1 / 2)) ''we is here'' = Inr 3"
    by (simp add: stub_providers_def)
  have p: "polarity_pos (stub_providers [] 3 (1 / 2)) ''fine'' = Inr (1 / 2)"
    by (simp add: stub_providers_def)
  note th = leaf_scorers_fixed_sets [of "stub_providers [] 3 (1 / 2)"]
  from th [of "''we is here''" 3] t
  have a: "grammar_score (stub_providers [] 3 (1 / 2)) ''we is here'' 3 = Inr (2, 3)"
    by (simp add: grammar_score_def)
  from th [of "''we is here''" 0] t
  have b: "grammar_score (stub_providers [] 3 (1 / 2)) ''we is here'' 0 = Inr (10, 0)"
    by auto
  from th [of "''fine''" 0 "[''a'', ''b'', ''a'', ''a'']"] p
  have c: "sentiment_score (stub_providers [] 3 (1 / 2)) ''fine'' = Inr (9, 1 / 2)"
    by (simp add: sentiment_score_def)
  from th [of "''fine''" 0 "[''a'', ''b'', ''a'', ''a'']"]
  have d: "vocabulary_score [''a'', ''b'', ''a'', ''a''] = (6, 1 / 2)"
    by (simp add: vocabulary_score_def Let_def)
  show ?thesis using a b c d by simp
qed

subsection \<open>Partial rubrics\<close>

text \<open>
  Claim C7. On the transcript \<open>Hello\<close> and a rubric whose only salutation tier,
  \<open>normal\<close>, lists the keyword \<open>hello\<close> and has no \<open>score\<close>, the subscript
  \<open>rules["normal"]["score"]\<close> raises \<open>KeyError\<close> and \<open>compute_scores\<close> propagates it,
  whatever the collaborators return.
\<close>

theorem compute_scores_raises_on_tier_without_score:
  "compute_scores P ''Hello'' None rubric_normal_without_score = Inl (KeyError ''score'')"
  by (simp add: compute_scores_def rubric_normal_without_score_def empty_rubric_def
      no_content_cfg_def score_salutation_def Let_def no_salutation_cfg_def
      no_salutation_rules_def any_kw_in_def keywords_of_def no_tier_def str_contains_def
      str_find_def lower_def lower_char_def credit_def tier_score_item_def)

subsection \<open>Salutation\<close>

lemma startswith_iff: "startswith s sub \<longleftrightarrow> (\<exists>suf. s = sub @ suf)"
  by (induction s sub rule: startswith.induct) auto

lemma find_from_absent: "find_from i s sub = - 1 \<longleftrightarrow> \<not> is_substring sub s"
proof (induction s arbitrary: i)
  case Nil
  then show ?case by (auto simp add: is_substring_def)
next
  case (Cons c cs)
  have split: "is_substring sub (c # cs) \<longleftrightarrow> startswith (c # cs) sub \<or> is_substring sub cs"
  proof
    assume "is_substring sub (c # cs)"
    then obtain pre suf where eq: "c # cs = pre @ sub @ suf" by (auto simp add: is_substring_def)
    show "startswith (c # cs) sub \<or> is_substring sub cs"
    proof (cases pre)
      case Nil
      with eq show ?thesis by (auto simp add: startswith_iff)
    next
      case (Cons p ps)
      with eq have "cs = ps @ sub @ suf" by simp
      then show ?thesis by (auto simp add: is_substring_def)
    qed
  next
    assume "startswith (c # cs) sub \<or> is_substring sub cs"
    then show "is_substring sub (c # cs)"
    proof
      assume "startswith (c # cs) sub"
      then obtain suf where "c # cs = [] @ sub @ suf" by (auto simp add: startswith_iff)
      then show ?thesis unfolding is_substring_def by blast
    next
      assume "is_substring sub cs"
      then obtain pre suf where "cs = pre @ sub @ suf" by (auto simp add: is_substring_def)
      then have "c # cs = (c # pre) @ sub @ suf" by simp
      then show ?thesis unfolding is_substring_def by blast
    qed
  qed
  show ?case
  proof (cases "startswith (c # cs) sub")
    case True
    then show ?thesis using split by simp
  next
    case False
    then show ?thesis using split Cons.IH [of "Suc i"] by simp
  qed
qed

lemma str_contains_iff: "str_contains s sub \<longleftrightarrow> is_substring sub s"
  by (simp add: str_contains_def str_find_def find_from_absent)

lemma any_kw_in_iff: "any_kw_in txt (keywords_of t) \<longleftrightarrow> tier_matches txt t"
  by (auto simp add: any_kw_in_def keywords_of_def tier_matches_def list_ex_iff str_contains_iff
      no_tier_def split: option.splits)

lemma tier_score_item_bind:
  "tier_matches txt t \<Longrightarrow>
     credit fb (tier_score_item name t) =
       (case Option.bind t tier_score of None \<Rightarrow> Inl (KeyError ''score'') | Some s \<Rightarrow> Inr (s, fb))"
  by (auto simp add: tier_matches_def tier_score_item_def credit_def split: option.splits)

text \<open>
  What the scorer does on every rule set: the first tier in priority order one of whose
  keywords is a substring of the lowercased text decides the result, which is that tier's
  score, or the \<open>KeyError\<close> of the subscript when the tier has none; without a match
  the result is the \<open>no_salutation\<close> score.
\<close>

lemma score_salutation_first_match:
  "score_salutation text cfg =
     (case List.find (\<lambda>(fb, t). tier_matches (lower text) t) (tiers_by_priority cfg) of
        None \<Rightarrow> Inr (no_salutation_score cfg, NoClearSalutation)
      | Some (fb, t) \<Rightarrow>
          (case Option.bind t tier_score of
             None \<Rightarrow> Inl (KeyError ''score'')
           | Some s \<Rightarrow> Inr (s, fb)))"
proof (cases "sal_rules cfg")
  case None
  then show ?thesis
    by (simp add: score_salutation_def tiers_by_priority_def no_salutation_score_def
        any_kw_in_iff tier_matches_def no_salutation_rules_def no_tier_def)
next
  case (Some rules)
  have no_sal: "dget (tier_score (dget (no_salutation rules) no_tier)) 0 = no_salutation_score cfg"
    using Some by (simp add: no_salutation_score_def no_tier_def split: option.splits)
  show ?thesis
    using Some no_sal
    by (simp add: score_salutation_def tiers_by_priority_def Let_def any_kw_in_iff
        tier_score_item_bind)
qed

text \<open>
  Claim C4. On the text \<open>Hello\<close> and a rule set whose tier \<open>normal\<close> lists the
  keyword \<open>hello\<close> and has no \<open>score\<close>, the tier matches, and the scorer raises
  \<open>KeyError\<close> instead of crediting a score.
\<close>

theorem score_salutation_raises_on_matched_tier:
  "tier_matches (lower ''Hello'') (Some \<lparr>tier_keywords = Some [''hello''], tier_score = None\<rparr>)
   \<and> score_salutation ''Hello'' normal_tier_without_score = Inl (KeyError ''score'')"
proof -
  have "any_kw_in (lower ''Hello'')
          (keywords_of (Some \<lparr>tier_keywords = Some [''hello''], tier_score = None\<rparr>))"
    by (simp add: any_kw_in_def keywords_of_def str_contains_def str_find_def lower_def
        lower_char_def)
  then have "tier_matches (lower ''Hello'')
      (Some \<lparr>tier_keywords = Some [''hello''], tier_score = None\<rparr>)"
    by (simp only: any_kw_in_iff)
  moreover have "score_salutation ''Hello'' normal_tier_without_score = Inl (KeyError ''score'')"
    by (simp add: score_salutation_def normal_tier_without_score_def Let_def any_kw_in_def
        keywords_of_def no_tier_def str_contains_def str_find_def lower_def lower_char_def
        credit_def tier_score_item_def)
  ultimately show ?thesis by simp
qed

subsection \<open>Keyword presence\<close>

lemma match_keywords_filter:
  "match_keywords words txt each kws (found, raw_score) =
     (found @ filter (kw_matches words txt) kws,
      raw_score + each * of_nat (length (filter (kw_matches words txt) kws)))"
  by (induction kws arbitrary: found raw_score)
    (simp_all add: kw_matches_def str_contains_iff algebra_simps)

lemma cfg_accessors:
  "dget (kw_keywords (dget (must_have cfg) no_keyword_group)) [] = must_keywords cfg"
  "dget (kw_keywords (dget (good_to_have cfg) no_keyword_group)) [] = good_keywords cfg"
  "dget (score_each (dget (must_have cfg) no_keyword_group)) 4 = must_score_each cfg"
  "dget (score_each (dget (good_to_have cfg) no_keyword_group)) 2 = good_score_each cfg"
  by (simp_all add: must_keywords_def good_keywords_def must_score_each_def good_score_each_def
      no_keyword_group_def split: option.splits)

lemma sum_list_const: "sum_list (map (\<lambda>_. c) xs) = (c::rat) * of_nat (length xs)"
  by (induction xs) (simp_all add: algebra_simps)

lemma score_keyword_presence_eq:
  "score_keyword_presence P words text cfg =
     (if length (exact_found words text cfg) < max 1 (length (must_keywords cfg) div 2) then
        (if 6 / 10 \<le> similarity_or_zero P text cfg then
           (exact_score words text cfg
              + (1 / 2) * must_score_each cfg * of_nat (length (must_keywords cfg)),
            exact_found words text cfg @ [''semantic-match''],
            SemanticMatch (similarity_or_zero P text cfg))
         else (exact_score words text cfg, exact_found words text cfg,
               SemanticWeak (similarity_or_zero P text cfg)))
      else (exact_score words text cfg, exact_found words text cfg, SufficientExact))"
  by (simp add: score_keyword_presence_def Let_def cfg_accessors match_keywords_filter
      exact_found_def exact_score_def similarity_or_zero_def sum_list_const)

subsection \<open>Reading the report of \<open>compute_scores\<close>\<close>

lemma kw_cfg_accessors:
  "dget (keyword_presence (dget (content_and_structure r) no_content_cfg)) no_keyword_cfg = keyword_cfg_of r"
  "dget (kw_weight (keyword_cfg_of r)) 30 = configured_kw_max r"
  by (simp_all add: keyword_cfg_of_def configured_kw_max_def no_content_cfg_def no_keyword_cfg_def
      split: option.splits)

lemma compute_scores_keyword_field:
  assumes "compute_scores P t d r = Inr rep"
  shows "r_keyword_presence rep =
           \<lparr>raw = min (fst (score_keyword_presence P (word_tokenize P (clean_text t)) (clean_text t)
                          (keyword_cfg_of r))) (configured_kw_max r),
            max_score = configured_kw_max r\<rparr>"
  using assms
  by (auto simp add: compute_scores_def Let_def kw_cfg_accessors get_word_count_def
      split: sum.splits)

lemma compute_scores_returns:
  assumes "score_salutation t (dget (salutation (dget (content_and_structure r) no_content_cfg)) no_salutation_cfg) = Inr sal"
    and "tool_check P t = Inr m"
    and "polarity_pos P t = Inr p"
  shows "\<exists>rep. compute_scores P t d r = Inr rep"
proof -
  obtain g where "grammar_score P t (fst (get_word_count P (clean_text t))) = Inr g"
    using grammar_score_returns [OF assms(2)] by blast
  moreover obtain s where "sentiment_score P t = Inr s"
    using sentiment_score_returns [OF assms(3)] by blast
  ultimately show ?thesis
    using assms(1) by (simp add: compute_scores_def Let_def)
qed

subsection \<open>Keyword presence: semantic fallback and clipping\<close>

lemma salutation_cfg_accessor:
  "dget (salutation (dget (content_and_structure r) no_content_cfg)) no_salutation_cfg =
     salutation_cfg_of r"
  by (simp add: salutation_cfg_of_def no_content_cfg_def split: option.splits)

text \<open>
  Claim C5, as amended. Let \<open>found\<close> be the exactly matched keywords. When
  \<open>length found < max 1 (length must_have div 2)\<close>, with integer division, the scorer
  computes the similarity between the text and the must-have plus good-to-have phrases
  (\<open>0\<close> if the provider raises); at \<open>0.6\<close> or more it adds exactly
  \<open>0.5 * score_each * length must_have\<close> and appends \<open>semantic-match\<close>. Otherwise
  the exact matches stand. The raw score in the report is the minimum of that score and
  the configured maximum (default \<open>30\<close>).
\<close>

theorem keyword_semantic_fallback:
  "score_keyword_presence P words text cfg =
     (if length (exact_found words text cfg) < max 1 (length (must_keywords cfg) div 2) then
        (if 6 / 10 \<le> similarity_or_zero P text cfg then
           (exact_score words text cfg
              + (1 / 2) * must_score_each cfg * of_nat (length (must_keywords cfg)),
            exact_found words text cfg @ [''semantic-match''],
            SemanticMatch (similarity_or_zero P text cfg))
         else (exact_score words text cfg, exact_found words text cfg,
               SemanticWeak (similarity_or_zero P text cfg)))
      else (exact_score words text cfg, exact_found words text cfg, SufficientExact))
   \<and> (\<forall>rep. compute_scores P t d r = Inr rep \<longrightarrow>
          raw (r_keyword_presence rep) =
            min (fst (score_keyword_presence P (word_tokenize P (clean_text t)) (clean_text t)
                        (keyword_cfg_of r)))
                (configured_kw_max r)
          \<and> max_score (r_keyword_presence rep) = configured_kw_max r
          \<and> raw (r_keyword_presence rep) \<le> max_score (r_keyword_presence rep))"
  using score_keyword_presence_eq [of P words "text" cfg]
    compute_scores_keyword_field [of P t d r]
  by simp

theorem keyword_semantic_fallback_witness:
  "exact_found [''my'', ''name''] ''my name'' four_keyword_cfg = [''name'']
   \<and> exact_score [''my'', ''name''] ''my name'' four_keyword_cfg = 4
   \<and> similarity_or_zero (similar_providers [''my'', ''name'']) ''my name'' four_keyword_cfg = 9 / 10
   \<and> score_keyword_presence (similar_providers [''my'', ''name'']) [''my'', ''name''] ''my name''
        four_keyword_cfg = (12, [''name'', ''semantic-match''], SemanticMatch (9 / 10))
   \<and> \<not> isl (compute_scores (similar_providers [''my'', ''name'']) ''My name'' None
              (keyword_rubric four_keyword_cfg))
   \<and> r_keyword_presence (projr (compute_scores (similar_providers [''my'', ''name'']) ''My name''
        None (keyword_rubric four_keyword_cfg))) = \<lparr>raw = 10, max_score = 10\<rparr>"
proof -
  let ?P = "similar_providers [''my'', ''name'']"
  let ?r = "keyword_rubric four_keyword_cfg"
  have found: "exact_found [''my'', ''name''] ''my name'' four_keyword_cfg = [''name'']"
    by (simp add: exact_found_def kw_matches_def must_keywords_def good_keywords_def
        four_keyword_cfg_def)
  have score: "exact_score [''my'', ''name''] ''my name'' four_keyword_cfg = 4"
    by (simp add: exact_score_def kw_matches_def must_keywords_def good_keywords_def
        must_score_each_def good_score_each_def four_keyword_cfg_def)
  have sim: "similarity_or_zero ?P ''my name'' four_keyword_cfg = 9 / 10"
    by (simp add: similarity_or_zero_def semantic_similarity_def must_keywords_def
        good_keywords_def four_keyword_cfg_def similar_providers_def stub_providers_def)
  have each: "must_score_each four_keyword_cfg = 4" "length (must_keywords four_keyword_cfg) = 4"
    by (simp_all add: must_score_each_def must_keywords_def four_keyword_cfg_def)
  note th = keyword_semantic_fallback [of ?P _ _ four_keyword_cfg "''My name''" None ?r]
  from th [of "[''my'', ''name'']" "''my name''"] found score sim each
  have run: "score_keyword_presence ?P [''my'', ''name''] ''my name'' four_keyword_cfg =
               (12, [''name'', ''semantic-match''], SemanticMatch (9 / 10))"
    by simp
  have "score_salutation ''My name'' (salutation_cfg_of ?r) = Inr (0, NoClearSalutation)"
    by (simp add: score_salutation_def salutation_cfg_of_def keyword_rubric_def empty_rubric_def
        no_content_cfg_def no_salutation_cfg_def no_salutation_rules_def any_kw_in_def
        keywords_of_def no_tier_def)
  then obtain rep where rep: "compute_scores ?P ''My name'' None ?r = Inr rep"
    using compute_scores_returns [of "''My name''" ?r _ ?P 0 0 None]
    by (auto simp add: salutation_cfg_accessor similar_providers_def stub_providers_def)
  have clean: "clean_text ''My name'' = ''my name''"
    by (simp add: clean_text_def strip_def lower_def lower_char_def is_space_def)
  have tok: "word_tokenize ?P ''my name'' = [''my'', ''name'']"
    by (simp add: similar_providers_def stub_providers_def)
  have cfg: "keyword_cfg_of ?r = four_keyword_cfg" "configured_kw_max ?r = 10"
    by (simp_all add: keyword_cfg_of_def configured_kw_max_def keyword_rubric_def
        empty_rubric_def no_content_cfg_def four_keyword_cfg_def)
  from th [of "[''my'', ''name'']" "''my name''"] rep clean tok cfg run
  have "r_keyword_presence rep = \<lparr>raw = 10, max_score = 10\<rparr>"
    by simp
  with rep found score sim run show ?thesis by simp
qed

text \<open>
  Claim C5 as stated fails: with three must-have keywords and one match,
  \<open>1 < max(1, 3/2)\<close>, the similarity is \<open>0.9\<close>, and yet there is no bonus and no
  \<open>semantic-match\<close>, because the code compares with \<open>max(1, 3 // 2) = 1\<close>.
\<close>

theorem keyword_fallback_threshold_counterexample:
  "rat_of_nat (length (exact_found [''my'', ''name''] ''my name'' three_keyword_cfg))
     < max 1 (rat_of_nat (length (must_keywords three_keyword_cfg)) / 2)
   \<and> semantic_similarity (similar_providers [''my'', ''name'']) ''my name''
        (must_keywords three_keyword_cfg @ good_keywords three_keyword_cfg) = Inr (9 / 10)
   \<and> score_keyword_presence (similar_providers [''my'', ''name'']) [''my'', ''name''] ''my name''
        three_keyword_cfg = (4, [''name''], SufficientExact)"
  by (simp add: score_keyword_presence_def Let_def three_keyword_cfg_def similar_providers_def
      stub_providers_def semantic_similarity_def lower_def lower_char_def exact_found_def
      kw_matches_def must_keywords_def good_keywords_def no_keyword_group_def)

lemma semantic_similarity_encode_fails:
  "encode P text = Inl e \<Longrightarrow> semantic_similarity P text phrases = Inl e"
  by (simp add: semantic_similarity_def)

text \<open>
  Claim C6. On the fallback path, when the similarity call raises, the scorer returns
  the exact-match score and keyword list unchanged, with similarity \<open>0\<close>; and
  \<open>compute_scores\<close> returns a report whenever the salutation scorer, the grammar
  checker and the sentiment analyser return.
\<close>

theorem similarity_failure_gives_no_credit:
  assumes "semantic_similarity P text (must_keywords cfg @ good_keywords cfg) = Inl e"
    and "length (exact_found words text cfg) < max 1 (length (must_keywords cfg) div 2)"
  shows "score_keyword_presence P words text cfg =
           (exact_score words text cfg, exact_found words text cfg, SemanticWeak 0)
         \<and> (\<forall>sal m p. score_salutation t (salutation_cfg_of r) = Inr sal
                \<and> tool_check P t = Inr m \<and> polarity_pos P t = Inr p
              \<longrightarrow> (\<exists>rep. compute_scores P t d r = Inr rep))"
  using assms score_keyword_presence_eq [of P words "text" cfg]
    compute_scores_returns [of t r _ P _ _ d]
  by (auto simp add: similarity_or_zero_def salutation_cfg_accessor)

theorem similarity_failure_gives_no_credit_witness:
  "semantic_similarity (unavailable_encoder [''my'', ''name'']) ''my name''
     (must_keywords four_keyword_cfg @ good_keywords four_keyword_cfg)
     = Inl (ProviderError ''unavailable'')
   \<and> score_keyword_presence (unavailable_encoder [''my'', ''name'']) [''my'', ''name'']
        ''my name'' four_keyword_cfg = (4, [''name''], SemanticWeak 0)
   \<and> \<not> isl (compute_scores (unavailable_encoder [''my'', ''name'']) ''My name'' None
              (keyword_rubric four_keyword_cfg))"
proof -
  let ?P = "unavailable_encoder [''my'', ''name'']"
  let ?r = "keyword_rubric four_keyword_cfg"
  have fail: "semantic_similarity ?P ''my name''
      (must_keywords four_keyword_cfg @ good_keywords four_keyword_cfg)
      = Inl (ProviderError ''unavailable'')"
    by (simp add: semantic_similarity_encode_fails unavailable_encoder_def stub_providers_def)
  have found: "exact_found [''my'', ''name''] ''my name'' four_keyword_cfg = [''name'']"
    by (simp add: exact_found_def kw_matches_def must_keywords_def good_keywords_def
        four_keyword_cfg_def)
  have score: "exact_score [''my'', ''name''] ''my name'' four_keyword_cfg = 4"
    by (simp add: exact_score_def kw_matches_def must_keywords_def good_keywords_def
        must_score_each_def good_score_each_def four_keyword_cfg_def)
  have path: "length (exact_found [''my'', ''name''] ''my name'' four_keyword_cfg)
      < max 1 (length (must_keywords four_keyword_cfg) div 2)"
  proof -
    have "length (must_keywords four_keyword_cfg) = 4"
      by (simp add: must_keywords_def four_keyword_cfg_def)
    with found show ?thesis by simp
  qed
  note th = similarity_failure_gives_no_credit [OF fail path, of "''My name''" ?r None]
  have sal: "score_salutation ''My name'' (salutation_cfg_of ?r) = Inr (0, NoClearSalutation)"
    by (simp add: score_salutation_def salutation_cfg_of_def keyword_rubric_def empty_rubric_def
        no_content_cfg_def no_salutation_cfg_def no_salutation_rules_def any_kw_in_def
        keywords_of_def no_tier_def)
  have prov: "tool_check ?P ''My name'' = Inr 0" "polarity_pos ?P ''My name'' = Inr 0"
    by (simp_all add: unavailable_encoder_def stub_providers_def)
  from th sal prov obtain rep where "compute_scores ?P ''My name'' None ?r = Inr rep"
    by blast
  with th fail found score show ?thesis by simp
qed

subsection \<open>Flow\<close>

lemma startswith_take: "startswith s sub \<longleftrightarrow> take (length sub) s = sub"
  by (induction s sub rule: startswith.induct) auto

lemma occurs_at_Nil: "occurs_at [] sub j \<longleftrightarrow> j = 0 \<and> sub = []"
  by (auto simp add: occurs_at_def)

lemma occurs_at_0: "occurs_at s sub 0 \<longleftrightarrow> startswith s sub"
  by (simp add: occurs_at_def startswith_take)

lemma occurs_at_Suc: "occurs_at (c # cs) sub (Suc j) \<longleftrightarrow> occurs_at cs sub j"
  by (simp add: occurs_at_def)

lemma find_from_none: "find_from i s sub = - 1 \<longleftrightarrow> (\<forall>j. \<not> occurs_at s sub j)"
proof (induction s arbitrary: i)
  case Nil
  then show ?case by (auto simp add: occurs_at_Nil)
next
  case (Cons c cs)
  show ?case
  proof (cases "startswith (c # cs) sub")
    case True
    then have "occurs_at (c # cs) sub 0" by (simp add: occurs_at_0)
    with True show ?thesis by auto
  next
    case False
    have "(\<forall>j. \<not> occurs_at (c # cs) sub j) \<longleftrightarrow> (\<forall>j. \<not> occurs_at cs sub j)"
    proof
      assume a: "\<forall>j. \<not> occurs_at (c # cs) sub j"
      show "\<forall>j. \<not> occurs_at cs sub j"
      proof
        fix j
        from a have "\<not> occurs_at (c # cs) sub (Suc j)" by blast
        then show "\<not> occurs_at cs sub j" by (simp add: occurs_at_Suc)
      qed
    next
      assume a: "\<forall>j. \<not> occurs_at cs sub j"
      show "\<forall>j. \<not> occurs_at (c # cs) sub j"
      proof
        fix j
        show "\<not> occurs_at (c # cs) sub j"
        proof (cases j)
          case 0
          with False show ?thesis by (simp add: occurs_at_0)
        next
          case (Suc k)
          with a show ?thesis by (simp add: occurs_at_Suc)
        qed
      qed
    qed
    with False Cons.IH [of "Suc i"] show ?thesis by simp
  qed
qed

lemma find_from_least:
  "find_from i s sub \<noteq> - 1 \<Longrightarrow>
     \<exists>k. find_from i s sub = int i + int k \<and> occurs_at s sub k
         \<and> (\<forall>j. occurs_at s sub j \<longrightarrow> k \<le> j)"
proof (induction s arbitrary: i)
  case Nil
  then show ?case by (auto simp add: occurs_at_Nil split: if_splits)
next
  case (Cons c cs)
  show ?case
  proof (cases "startswith (c # cs) sub")
    case True
    then have "find_from i (c # cs) sub = int i + int 0 \<and> occurs_at (c # cs) sub 0"
      by (simp add: occurs_at_0)
    then show ?thesis by blast
  next
    case False
    with Cons.prems have ne: "find_from (Suc i) cs sub \<noteq> - 1" by simp
    from Cons.IH [OF ne] obtain k where
      k: "find_from (Suc i) cs sub = int (Suc i) + int k" "occurs_at cs sub k"
         "\<forall>j. occurs_at cs sub j \<longrightarrow> k \<le> j"
      by blast
    have least: "\<forall>j. occurs_at (c # cs) sub j \<longrightarrow> Suc k \<le> j"
    proof (intro allI impI)
      fix j
      assume occ: "occurs_at (c # cs) sub j"
      show "Suc k \<le> j"
      proof (cases j)
        case 0
        with occ False show ?thesis by (simp add: occurs_at_0)
      next
        case (Suc m)
        with occ have "occurs_at cs sub m" by (simp add: occurs_at_Suc)
        with k(3) Suc show ?thesis by simp
      qed
    qed
    from False k have "find_from i (c # cs) sub = int i + int (Suc k)" by simp
    moreover from k(2) have "occurs_at (c # cs) sub (Suc k)" by (simp add: occurs_at_Suc)
    ultimately show ?thesis using least by blast
  qed
qed

lemma str_find_none: "str_find s sub = - 1 \<longleftrightarrow> (\<forall>j. \<not> occurs_at s sub j)"
  by (simp add: str_find_def find_from_none)

lemma str_find_least:
  assumes "str_find s sub \<noteq> - 1"
  shows "0 \<le> str_find s sub \<and> occurs_at s sub (nat (str_find s sub))
         \<and> (\<forall>j. occurs_at s sub j \<longrightarrow> str_find s sub \<le> int j)"
proof -
  from assms have "find_from 0 s sub \<noteq> - 1" by (simp add: str_find_def)
  from find_from_least [OF this] obtain k where
    "find_from 0 s sub = int k" "occurs_at s sub k" "\<forall>j. occurs_at s sub j \<longrightarrow> k \<le> j"
    by auto
  then show ?thesis by (auto simp add: str_find_def)
qed

lemma list_min_Min: "xs \<noteq> [] \<Longrightarrow> list_min xs = Min (set xs)"
proof (cases xs)
  case Nil
  assume "xs \<noteq> []"
  with Nil show ?thesis by simp
next
  case (Cons a list)
  have "Min (set (a # list)) = fold min list a" by (rule Min.set_eq_fold)
  with Cons show ?thesis by simp
qed

lemma first_position_None: "first_position txt toks = None \<longleftrightarrow> none_occurs txt toks"
  by (auto simp add: first_position_def Let_def none_occurs_def filter_empty_conv str_find_none)

lemma first_position_Some:
  assumes "first_position txt toks = Some p"
  shows "is_earliest txt toks p"
proof -
  let ?hits = "filter (\<lambda>tok. str_find txt tok \<noteq> - 1) toks"
  let ?pos = "map (str_find txt) ?hits"
  from assms have ne: "?pos \<noteq> []" and p: "p = list_min ?pos"
    by (auto simp add: first_position_def Let_def split: if_splits)
  from ne p have pmin: "p = Min (set ?pos)" by (simp add: list_min_Min)
  from ne have "set ?pos \<noteq> {}" by (simp only: set_empty not_False_eq_True)
  then have "Min (set ?pos) \<in> set ?pos" by (intro Min_in) simp_all
  with pmin obtain tok where tok: "tok \<in> set toks" "str_find txt tok \<noteq> - 1" "p = str_find txt tok"
    by auto
  from str_find_least [OF tok(2)] tok(3)
  have a: "0 \<le> p" "occurs_at txt tok (nat p)" by auto
  have b: "\<forall>tok' \<in> set toks. \<forall>j. occurs_at txt tok' j \<longrightarrow> p \<le> int j"
  proof (intro ballI allI impI)
    fix tok' j
    assume mem: "tok' \<in> set toks" and occ: "occurs_at txt tok' j"
    from occ have found: "str_find txt tok' \<noteq> - 1" by (auto simp add: str_find_none)
    with mem have "str_find txt tok' \<in> set ?pos" by auto
    then have "Min (set ?pos) \<le> str_find txt tok'" by (intro Min_le) auto
    moreover from str_find_least [OF found] occ have "str_find txt tok' \<le> int j" by blast
    ultimately show "p \<le> int j" using pmin by simp
  qed
  from a b tok(1) show ?thesis unfolding is_earliest_def by blast
qed

lemma is_earliest_unique: "is_earliest txt toks p \<Longrightarrow> is_earliest txt toks q \<Longrightarrow> p = q"
proof -
  assume p: "is_earliest txt toks p" and q: "is_earliest txt toks q"
  from p q have "p \<le> int (nat q)" unfolding is_earliest_def by blast
  moreover from p q have "q \<le> int (nat p)" unfolding is_earliest_def by blast
  moreover from p q have "0 \<le> p" "0 \<le> q" unfolding is_earliest_def by blast+
  ultimately show "p = q" by simp
qed

lemma first_position_Some_iff: "first_position txt toks = Some p \<longleftrightarrow> is_earliest txt toks p"
proof
  assume "first_position txt toks = Some p"
  then show "is_earliest txt toks p" by (rule first_position_Some)
next
  assume e: "is_earliest txt toks p"
  then have "\<not> none_occurs txt toks" unfolding is_earliest_def none_occurs_def by blast
  then obtain q where q: "first_position txt toks = Some q"
    using first_position_None [of "txt" toks] by (cases "first_position txt toks") auto
  from first_position_Some [OF q] e have "q = p" by (rule is_earliest_unique)
  with q show "first_position txt toks = Some p" by simp
qed

lemma map_of_positions:
  "map_of (map (\<lambda>(key, tokens). (key, f tokens)) kvs) item = map_option f (map_of kvs item)"
  by (induction kvs) auto

lemma positions_get_eq: "positions_get txt item = category_position txt item"
  by (simp add: positions_get_def positions_def category_position_def map_of_positions
      split: option.splits)

lemma build_seq_eq:
  "build_seq txt items =
     List.map_filter (\<lambda>item. map_option (Pair item) (category_position txt item)) items"
  by (induction items) (simp_all add: positions_get_eq split: option.splits)

lemma adjacent_le_sorted: "adjacent_le seq \<longleftrightarrow> sorted (map snd seq)"
  by (induction seq rule: adjacent_le.induct) auto

lemma flow_cfg_accessors:
  "dget (order (flow_config cfg)) [] = target_order cfg"
  "dget (co_score (flow_config cfg)) 5 = configured_flow_score cfg"
  by (simp_all add: flow_config_def target_order_def configured_flow_score_def no_flow_rules_def
      no_correct_order_def split: option.splits)

lemma score_flow_eq:
  "score_flow text cfg =
     (if 2 \<le> length (found_categories (lower text) cfg)
         \<and> sorted (map snd (found_categories (lower text) cfg))
      then (configured_flow_score cfg, True) else (0, False))"
  by (auto simp add: score_flow_def Let_def flow_cfg_accessors build_seq_eq found_categories_def
      adjacent_le_sorted)

lemma category_position_Some_iff:
  "category_position txt item = Some p \<longleftrightarrow>
     (\<exists>toks. map_of indicators item = Some toks \<and> is_earliest txt toks p)"
  by (cases "map_of indicators item") (simp_all add: category_position_def first_position_Some_iff)

lemma category_position_None_iff:
  "category_position txt item = None \<longleftrightarrow>
     (\<forall>toks. map_of indicators item = Some toks \<longrightarrow> none_occurs txt toks)"
  by (cases "map_of indicators item") (simp_all add: category_position_def first_position_None)

text \<open>
  Claim C8. \<open>score_flow\<close> places each category at the earliest position of any of its
  indicator phrases in the lowercased text, keeps the entries of the target order that
  have a position, and awards the configured score (default \<open>5\<close>) exactly when at
  least two entries were found and their positions are non-decreasing in target order;
  otherwise the score is \<open>0\<close>. With fewer than two entries found it is \<open>0\<close>.
\<close>

theorem flow_binary_order:
  "score_flow text cfg =
     (if 2 \<le> length (found_categories (lower text) cfg)
         \<and> sorted (map snd (found_categories (lower text) cfg))
      then (configured_flow_score cfg, True) else (0, False))
   \<and> (length (found_categories (lower text) cfg) < 2 \<longrightarrow> score_flow text cfg = (0, False))
   \<and> fst (score_flow text cfg) \<in> {0, configured_flow_score cfg}
   \<and> (category_position txt item = Some p \<longleftrightarrow>
        (\<exists>toks. map_of indicators item = Some toks \<and> is_earliest txt toks p))
   \<and> (category_position txt item = None \<longleftrightarrow>
        (\<forall>toks. map_of indicators item = Some toks \<longrightarrow> none_occurs txt toks))"
  using score_flow_eq [of "text" cfg] category_position_Some_iff [of "txt" item p]
    category_position_None_iff [of "txt" item]
  by simp

theorem flow_binary_order_witness:
  "score_flow ''Hello, my name is Alex. Thank you'' example_flow_cfg = (7, True)
   \<and> score_flow ''Thank you. Hello'' example_flow_cfg = (0, False)
   \<and> score_flow ''Hello'' example_flow_cfg = (0, False)
   \<and> is_earliest ''hello, my name is alex. thank you''
        [''thank you'', ''thanks'', ''that's all'', ''bye''] 24"
proof -
  note defs = found_categories_def example_flow_cfg_def target_order_def category_position_def
    indicators_def first_position_def str_find_def Let_def
  have low: "lower ''Hello, my name is Alex. Thank you'' = ''hello, my name is alex. thank you''"
    "lower ''Thank you. Hello'' = ''thank you. hello''" "lower ''Hello'' = ''hello''"
    by (simp_all add: lower_def lower_char_def)
  have f1: "found_categories ''hello, my name is alex. thank you'' example_flow_cfg =
      [(''salutation'', 0), (''basic_details'', 7), (''closing'', 24)]"
    by (simp add: defs)
  have f2: "found_categories ''thank you. hello'' example_flow_cfg =
      [(''salutation'', 11), (''closing'', 0)]"
    by (simp add: defs)
  have f3: "found_categories ''hello'' example_flow_cfg = [(''salutation'', 0)]"
    by (simp add: defs)
  have sc: "configured_flow_score example_flow_cfg = 7"
    by (simp add: configured_flow_score_def example_flow_cfg_def)
  have pos: "category_position ''hello, my name is alex. thank you'' ''closing'' = Some 24"
    by (simp add: defs)
  have ind: "map_of indicators ''closing'' = Some [''thank you'', ''thanks'', ''that's all'', ''bye'']"
    by (simp add: indicators_def)
  from flow_binary_order [of "''Hello, my name is Alex. Thank you''" example_flow_cfg
      "''hello, my name is alex. thank you''" "''closing''" 24] low f1 sc pos ind
  have a: "score_flow ''Hello, my name is Alex. Thank you'' example_flow_cfg = (7, True)"
    and d: "is_earliest ''hello, my name is alex. thank you''
        [''thank you'', ''thanks'', ''that's all'', ''bye''] 24"
    by simp_all
  from flow_binary_order [of "''Thank you. Hello''" example_flow_cfg] low f2 sc
  have b: "score_flow ''Thank you. Hello'' example_flow_cfg = (0, False)" by simp
  from flow_binary_order [of "''Hello''" example_flow_cfg] low f3
  have c: "score_flow ''Hello'' example_flow_cfg = (0, False)" by simp
  from a b c d show ?thesis by simp
qed

subsection \<open>The raw scores and maxima of the report\<close>

lemma compute_scores_sums:
  assumes "compute_scores P t d r = Inr rep"
  shows "c_raw (r_content_and_structure rep) =
           raw (r_salutation rep) + raw (r_keyword_presence rep) + raw (r_flow rep)"
    and "c_max (r_content_and_structure rep) =
           max_score (r_salutation rep) + max_score (r_keyword_presence rep)
             + max_score (r_flow rep)"
    and "c_raw (r_language_and_grammar rep) = raw (r_grammar rep) + raw (r_vocabulary rep)"
    and "c_max (r_language_and_grammar rep) =
           max_score (r_grammar rep) + max_score (r_vocabulary rep)"
  using assms
  by (auto simp add: compute_scores_def Let_def split: sum.splits)

lemma report_accessors:
  "dget (flow (dget (content_and_structure r) no_content_cfg)) no_flow_cfg = flow_cfg_of r"
  "dget (speech_rate r) no_speech_rate_cfg = speech_rate_cfg_of r"
  "dget (language_and_grammar r) no_language_cfg = language_cfg_of r"
  "dget (clarity r) no_clarity_cfg = clarity_cfg_of r"
  "dget (sal_weight (salutation_cfg_of r)) 5 = configured_sal_max r"
  "dget (weight (dget (grammar (language_cfg_of r)) no_weight_cfg)) 10 = configured_grammar_max r"
  "dget (weight (dget (vocabulary (language_cfg_of r)) no_weight_cfg)) 10 =
     configured_vocabulary_max r"
  by (simp_all add: flow_cfg_of_def speech_rate_cfg_of_def language_cfg_of_def
      clarity_cfg_of_def configured_sal_max_def configured_grammar_max_def
      configured_vocabulary_max_def)

lemma compute_scores_subscores:
  assumes "compute_scores P t d r = Inr rep"
  shows "score_salutation t (salutation_cfg_of r) =
           Inr (raw (r_salutation rep), r_salutation_feedback rep)"
    and "max_score (r_salutation rep) = configured_sal_max r"
    and "raw (r_flow rep) = fst (score_flow (clean_text t) (flow_cfg_of r))"
    and "max_score (r_flow rep) = configured_flow_score (flow_cfg_of r)"
    and "grammar_score P t (length (word_tokenize P (clean_text t))) =
           Inr (raw (r_grammar rep), r_errors rep)"
    and "max_score (r_grammar rep) = configured_grammar_max r"
    and "raw (r_vocabulary rep) = fst (vocabulary_score (word_tokenize P (clean_text t)))"
    and "max_score (r_vocabulary rep) = configured_vocabulary_max r"
  using assms
  by (auto simp add: compute_scores_def Let_def get_word_count_def salutation_cfg_accessor
      report_accessors flow_cfg_accessors split: sum.splits)

lemma compute_scores_criteria:
  assumes "compute_scores P t d r = Inr rep"
  shows "c_raw (r_speech_rate rep) =
           fst (score_speech_rate (length (word_tokenize P (clean_text t))) d
                  (speech_rate_cfg_of r))"
    and "c_max (r_speech_rate rep) = 10"
    and "c_raw (r_clarity rep) =
           fst (score_filler_words (count_filler_words (word_tokenize P (clean_text t)))
                  (length (word_tokenize P (clean_text t))) (clarity_cfg_of r))"
    and "c_max (r_clarity rep) = 15"
    and "sentiment_score P t = Inr (c_raw (r_engagement rep), r_polarity rep)"
    and "c_max (r_engagement rep) = 15"
  using assms
  by (auto simp add: compute_scores_def Let_def get_word_count_def report_accessors
      split: sum.splits)

subsection \<open>Scores of a well-scaled rubric\<close>

lemma salutation_within:
  assumes "score_salutation text cfg = Inr (s, fb)"
    and "0 \<le> m"
    and "list_all (\<lambda>t. absent_or_within m (tier_score (dget t no_tier)))
           [excellent (dget (sal_rules cfg) no_salutation_rules),
            good (dget (sal_rules cfg) no_salutation_rules),
            normal (dget (sal_rules cfg) no_salutation_rules),
            no_salutation (dget (sal_rules cfg) no_salutation_rules)]"
  shows "0 \<le> s \<and> s \<le> m"
  using assms
  by (auto simp add: score_salutation_def Let_def credit_def tier_score_item_def
      absent_or_within_def no_tier_def split: if_splits option.splits)

lemma keyword_raw_nonneg:
  assumes "0 \<le> must_score_each cfg" and "0 \<le> good_score_each cfg"
  shows "0 \<le> fst (score_keyword_presence P words text cfg)"
proof -
  from assms have "0 \<le> exact_score words text cfg"
    by (simp add: exact_score_def)
  moreover from assms have
    "0 \<le> (1 / 2) * must_score_each cfg * of_nat (length (must_keywords cfg))"
    by simp
  ultimately show ?thesis
    by (simp add: score_keyword_presence_eq)
qed

lemma flow_within:
  assumes "0 \<le> configured_flow_score cfg"
  shows "0 \<le> fst (score_flow text cfg) \<and> fst (score_flow text cfg) \<le> configured_flow_score cfg"
  using assms by (simp add: score_flow_eq)

lemma speech_rate_within:
  assumes "list_all (\<lambda>(t, d). 0 \<le> bucket_score t d \<and> bucket_score t d \<le> 10)
             [(too_fast (dget (sr_rules cfg) no_rate_rules), 2),
              (fast (dget (sr_rules cfg) no_rate_rules), 6),
              (ideal (dget (sr_rules cfg) no_rate_rules), 10),
              (slow (dget (sr_rules cfg) no_rate_rules), 6),
              (too_slow (dget (sr_rules cfg) no_rate_rules), 2)]"
  shows "0 \<le> fst (score_speech_rate wc d cfg) \<and> fst (score_speech_rate wc d cfg) \<le> 10"
  using assms
  by (auto simp add: score_speech_rate_def Let_def split: option.splits)

lemma filler_within:
  assumes "list_all (\<lambda>(s, d). 0 \<le> dget s d \<and> dget s d \<le> 15)
             [(b0_3 (dget (scoring (dget (filler_words cfg) no_filler_cfg)) no_filler_scoring), 15),
              (b4_6 (dget (scoring (dget (filler_words cfg) no_filler_cfg)) no_filler_scoring), 12),
              (b7_9 (dget (scoring (dget (filler_words cfg) no_filler_cfg)) no_filler_scoring), 9),
              (b10_12 (dget (scoring (dget (filler_words cfg) no_filler_cfg)) no_filler_scoring), 6),
              (b13_plus (dget (scoring (dget (filler_words cfg) no_filler_cfg)) no_filler_scoring), 3)]"
  shows "0 \<le> fst (score_filler_words fc wc cfg) \<and> fst (score_filler_words fc wc cfg) \<le> 15"
  using assms
  by (auto simp add: score_filler_words_def Let_def)

lemma grammar_within:
  "grammar_score P text n = Inr (s, e) \<Longrightarrow> 0 \<le> s \<and> s \<le> 10"
  by (auto simp add: grammar_score_def Let_def split: sum.splits if_splits)

lemma vocabulary_within:
  "0 \<le> fst (vocabulary_score ws) \<and> fst (vocabulary_score ws) \<le> 10"
  by (simp add: vocabulary_score_def Let_def)

lemma sentiment_within:
  "sentiment_score P text = Inr (s, p) \<Longrightarrow> 0 \<le> s \<and> s \<le> 15"
  by (auto simp add: sentiment_score_def Let_def split: sum.splits if_splits)

lemma raw_scores_within:
  assumes run: "compute_scores P t d r = Inr rep" and ws: "well_scaled r"
  shows "list_all (\<lambda>(x, m). 0 \<le> x \<and> x \<le> m) (raw_max_pairs rep)"
proof -
  note sub = compute_scores_subscores [OF run]
  note crit = compute_scores_criteria [OF run]
  note kw = compute_scores_keyword_field [OF run]
  note sums = compute_scores_sums [OF run]
  from ws have sal: "0 \<le> raw (r_salutation rep) \<and> raw (r_salutation rep) \<le> max_score (r_salutation rep)"
    using salutation_within [OF sub(1), of "configured_sal_max r"] sub(2)
    by (simp add: well_scaled_def Let_def)
  from ws have "0 \<le> fst (score_keyword_presence P (word_tokenize P (clean_text t)) (clean_text t)
      (keyword_cfg_of r))"
    using keyword_raw_nonneg [of "keyword_cfg_of r"] by (simp add: well_scaled_def Let_def)
  moreover from ws have "0 \<le> configured_kw_max r" by (simp add: well_scaled_def Let_def)
  ultimately have kwb: "0 \<le> raw (r_keyword_presence rep)
      \<and> raw (r_keyword_presence rep) \<le> max_score (r_keyword_presence rep)"
    using kw by simp
  from ws have fl: "0 \<le> raw (r_flow rep) \<and> raw (r_flow rep) \<le> max_score (r_flow rep)"
    using flow_within [of "flow_cfg_of r" "clean_text t"] sub(3,4)
    by (simp add: well_scaled_def Let_def)
  from ws have sr: "0 \<le> c_raw (r_speech_rate rep) \<and> c_raw (r_speech_rate rep) \<le> c_max (r_speech_rate rep)"
    using speech_rate_within [of "speech_rate_cfg_of r"] crit(1,2)
    by (simp add: well_scaled_def Let_def)
  from ws have gr: "0 \<le> raw (r_grammar rep) \<and> raw (r_grammar rep) \<le> max_score (r_grammar rep)"
    using grammar_within [OF sub(5)] sub(6) by (simp add: well_scaled_def Let_def)
  from ws have vo: "0 \<le> raw (r_vocabulary rep) \<and> raw (r_vocabulary rep) \<le> max_score (r_vocabulary rep)"
    using vocabulary_within [of "word_tokenize P (clean_text t)"] sub(7,8)
    by (simp add: well_scaled_def Let_def)
  from ws have cl: "0 \<le> c_raw (r_clarity rep) \<and> c_raw (r_clarity rep) \<le> c_max (r_clarity rep)"
    using filler_within [of "clarity_cfg_of r"] crit(3,4)
    by (simp add: well_scaled_def Let_def)
  have en: "0 \<le> c_raw (r_engagement rep) \<and> c_raw (r_engagement rep) \<le> c_max (r_engagement rep)"
    using sentiment_within [OF crit(5)] crit(6) by simp
  from sal kwb fl sums(1,2) have cs: "0 \<le> c_raw (r_content_and_structure rep)
      \<and> c_raw (r_content_and_structure rep) \<le> c_max (r_content_and_structure rep)"
    by simp
  from gr vo sums(3,4) have la: "0 \<le> c_raw (r_language_and_grammar rep)
      \<and> c_raw (r_language_and_grammar rep) \<le> c_max (r_language_and_grammar rep)"
    by simp
  from sal kwb fl sr gr vo cl en cs la show ?thesis
    by (simp add: raw_max_pairs_def components_def)
qed

subsection \<open>Runs of \<open>compute_scores\<close>\<close>

text \<open>The definitions that evaluate \<open>compute_scores\<close> on a concrete input.\<close>

lemmas compute_scores_eval =
  compute_scores_def Let_def empty_rubric_def stub_providers_def score_salutation_def
  no_content_cfg_def no_salutation_cfg_def no_salutation_rules_def any_kw_in_def keywords_of_def
  no_tier_def grammar_score_def sentiment_score_def get_word_count_def clean_text_def strip_def
  lower_def lower_char_def is_space_def count_filler_words_def FILLER_WORDS_def
  score_filler_words_def score_speech_rate_def normalize_score_def no_clarity_cfg_def
  no_filler_cfg_def no_filler_scoring_def no_rate_rules_def bucket_score_def
  no_speech_rate_cfg_def no_language_cfg_def no_weight_cfg_def vocabulary_score_def
  score_keyword_presence_def no_keyword_cfg_def no_keyword_group_def semantic_similarity_def
  score_flow_def flow_config_def no_flow_cfg_def no_flow_rules_def no_correct_order_def

lemma returned_report: "\<not> isl x \<Longrightarrow> x = Inr (projr x)"
  by (cases x) simp_all

text \<open>
  Claim C1. With speech-rate weight \<open>-1\<close> and clarity weight \<open>2\<close> the total weight
  is \<open>1\<close>, the weighted sum is \<open>-0.5 + 2 = 1.5\<close>, and the overall score is
  \<open>round(150, 2)\<close>, whatever function \<open>rnd\<close> the rounding is.
\<close>

theorem overall_score_150_with_negative_weight:
  "\<not> isl (compute_scores ((stub_providers [''hello''] 0 0)\<lparr>py_round := rnd\<rparr>) ''Hello'' None
           signed_weight_rubric)
   \<and> r_total_weight (projr (compute_scores ((stub_providers [''hello''] 0 0)\<lparr>py_round := rnd\<rparr>)
        ''Hello'' None signed_weight_rubric)) = 1
   \<and> r_overall_score (projr (compute_scores ((stub_providers [''hello''] 0 0)\<lparr>py_round := rnd\<rparr>)
        ''Hello'' None signed_weight_rubric)) = rnd 150 2"
  by (simp add: compute_scores_eval signed_weight_rubric_def)

text \<open>
  Claim C2, as amended. Whenever \<open>compute_scores\<close> returns a report, every raw score
  in it is the value its scorer returned, except that the keyword-presence raw score is
  the minimum of that value and its maximum, and so never exceeds it; the raw score of a
  composite criterion is the sum over its sub-criteria; the maxima are the configured
  ones, \<open>10\<close> for speech rate and \<open>15\<close> for clarity and engagement. For a rubric all
  of whose configured scores lie between \<open>0\<close> and the maximum of their component,
  every raw score lies between \<open>0\<close> and its maximum.
\<close>

theorem raw_scores_recorded_as_returned:
  assumes "compute_scores P t d r = Inr rep"
  shows "score_salutation t (salutation_cfg_of r) =
           Inr (raw (r_salutation rep), r_salutation_feedback rep)
         \<and> raw (r_keyword_presence rep) =
             min (fst (score_keyword_presence P (word_tokenize P (clean_text t)) (clean_text t)
                         (keyword_cfg_of r)))
                 (configured_kw_max r)
         \<and> raw (r_flow rep) = fst (score_flow (clean_text t) (flow_cfg_of r))
         \<and> c_raw (r_speech_rate rep) =
             fst (score_speech_rate (length (word_tokenize P (clean_text t))) d
                    (speech_rate_cfg_of r))
         \<and> grammar_score P t (length (word_tokenize P (clean_text t))) =
             Inr (raw (r_grammar rep), r_errors rep)
         \<and> raw (r_vocabulary rep) = fst (vocabulary_score (word_tokenize P (clean_text t)))
         \<and> c_raw (r_clarity rep) =
             fst (score_filler_words (count_filler_words (word_tokenize P (clean_text t)))
                    (length (word_tokenize P (clean_text t))) (clarity_cfg_of r))
         \<and> sentiment_score P t = Inr (c_raw (r_engagement rep), r_polarity rep)
         \<and> c_raw (r_content_and_structure rep) =
             raw (r_salutation rep) + raw (r_keyword_presence rep) + raw (r_flow rep)
         \<and> c_raw (r_language_and_grammar rep) = raw (r_grammar rep) + raw (r_vocabulary rep)
         \<and> map snd (raw_max_pairs rep) =
             [configured_sal_max r + configured_kw_max r + configured_flow_score (flow_cfg_of r),
              10, configured_grammar_max r + configured_vocabulary_max r, 15, 15,
              configured_sal_max r, configured_kw_max r, configured_flow_score (flow_cfg_of r),
              configured_grammar_max r, configured_vocabulary_max r]
         \<and> raw (r_keyword_presence rep) \<le> max_score (r_keyword_presence rep)
         \<and> (well_scaled r \<longrightarrow> list_all (\<lambda>(x, m). 0 \<le> x \<and> x \<le> m) (raw_max_pairs rep))"
proof -
  note sub = compute_scores_subscores [OF assms]
  note crit = compute_scores_criteria [OF assms]
  note kw = compute_scores_keyword_field [OF assms]
  note sums = compute_scores_sums [OF assms]
  have maxima: "map snd (raw_max_pairs rep) =
      [configured_sal_max r + configured_kw_max r + configured_flow_score (flow_cfg_of r),
       10, configured_grammar_max r + configured_vocabulary_max r, 15, 15,
       configured_sal_max r, configured_kw_max r, configured_flow_score (flow_cfg_of r),
       configured_grammar_max r, configured_vocabulary_max r]"
    using sub(2,4,6,8) crit(2,4,6) kw sums(2,4)
    by (simp add: raw_max_pairs_def components_def)
  have clip: "raw (r_keyword_presence rep) =
      min (fst (score_keyword_presence P (word_tokenize P (clean_text t)) (clean_text t)
                  (keyword_cfg_of r)))
          (configured_kw_max r)"
    and le: "raw (r_keyword_presence rep) \<le> max_score (r_keyword_presence rep)"
    using kw by simp_all
  have bounds: "well_scaled r \<longrightarrow> list_all (\<lambda>(x, m). 0 \<le> x \<and> x \<le> m) (raw_max_pairs rep)"
    using raw_scores_within [OF assms] by blast
  from sub(1,3,5,7) crit(1,3,5) sums(1,3) maxima clip le bounds show ?thesis
    by (intro conjI)
qed

text \<open>
  Claim C2 as stated fails in both directions: with the grammar maximum configured as
  \<open>5\<close> an error-free text has grammar raw score \<open>10\<close>, and with a must-have
  keyword scoring \<open>-4\<close> the keyword-presence raw score is \<open>-4\<close>.
\<close>

theorem raw_scores_off_scale_counterexample:
  "\<not> isl (compute_scores (stub_providers [''hello''] 0 0) ''Hello'' None off_scale_rubric)
   \<and> raw (r_grammar (projr (compute_scores (stub_providers [''hello''] 0 0) ''Hello'' None
        off_scale_rubric))) = 10
   \<and> max_score (r_grammar (projr (compute_scores (stub_providers [''hello''] 0 0) ''Hello'' None
        off_scale_rubric))) = 5
   \<and> raw (r_keyword_presence (projr (compute_scores (stub_providers [''hello''] 0 0) ''Hello''
        None off_scale_rubric))) = - 4"
  by (simp add: compute_scores_eval off_scale_rubric_def)

theorem raw_scores_recorded_as_returned_witness:
  "\<not> isl (compute_scores (similar_providers [''my'', ''name'']) ''My name'' None
           (keyword_rubric four_keyword_cfg))
   \<and> well_scaled (keyword_rubric four_keyword_cfg)
   \<and> raw_max_pairs (projr (compute_scores (similar_providers [''my'', ''name'']) ''My name'' None
        (keyword_rubric four_keyword_cfg))) =
       [(10, 20), (5, 10), (20, 20), (15, 15), (3, 15), (0, 5), (10, 10), (0, 5), (10, 10),
        (10, 10)]
   \<and> list_all (\<lambda>(x, m). 0 \<le> x \<and> x \<le> m)
        (raw_max_pairs (projr (compute_scores (similar_providers [''my'', ''name'']) ''My name''
           None (keyword_rubric four_keyword_cfg))))"
proof -
  let ?run = "compute_scores (similar_providers [''my'', ''name'']) ''My name'' None
                (keyword_rubric four_keyword_cfg)"
  note defs = compute_scores_eval similar_providers_def keyword_rubric_def four_keyword_cfg_def
  have ok: "\<not> isl ?run"
    by (simp add: defs)
  then have run: "?run = Inr (projr ?run)" by (rule returned_report)
  have ws: "well_scaled (keyword_rubric four_keyword_cfg)"
    by (simp add: well_scaled_def Let_def keyword_rubric_def four_keyword_cfg_def
        salutation_cfg_of_def keyword_cfg_of_def speech_rate_cfg_of_def clarity_cfg_of_def
        language_cfg_of_def flow_cfg_of_def configured_sal_max_def configured_kw_max_def
        configured_flow_score_def configured_grammar_max_def configured_vocabulary_max_def
        must_score_each_def good_score_each_def absent_or_within_def bucket_score_def
        empty_rubric_def no_content_cfg_def no_salutation_cfg_def no_salutation_rules_def
        no_tier_def no_flow_cfg_def no_speech_rate_cfg_def no_rate_rules_def
        no_language_cfg_def no_weight_cfg_def no_clarity_cfg_def no_filler_cfg_def
        no_filler_scoring_def)
  from raw_scores_recorded_as_returned [OF run] ws
  have within: "list_all (\<lambda>(x, m). 0 \<le> x \<and> x \<le> m) (raw_max_pairs (projr ?run))"
    by blast
  have pairs: "raw_max_pairs (projr ?run) =
      [(10, 20), (5, 10), (20, 20), (15, 15), (3, 15), (0, 5), (10, 10), (0, 5), (10, 10),
       (10, 10)]"
    by (simp add: raw_max_pairs_def components_def defs)
  from ok ws pairs within show ?thesis by (intro conjI)
qed

end
